theory Spec2Isabelle
  imports Main "HOL-Library.Word" "HOL-Library.AList"
begin


section \<open>The native side: schema-typed elements\<close>

text \<open>
  The file \<open>ffi_utils.c\<close> reads a native element only through the accessor functions of
  the BLPAPI C SDK. The SDK headers are not part of the repository, so the element is
  modelled by what its accessors answer: each field below is the answer of the accessor of
  the same name. An accessor that reports a non-zero status is \<open>None\<close>.
\<close>

type_synonym float64 = "64 word"
  \<comment> \<open>a C double, carried as its bit pattern: the code only passes it on\<close>

text \<open>
  The two timestamp structs, with the field widths of the SDK header
  \<open>blpapi_datetime.h\<close>: unsigned 8-bit parts and clock fields, unsigned 16-bit
  milliseconds and year, a signed 16-bit offset, unsigned 32-bit picoseconds.
\<close>

record blpapi_Datetime_t =
  parts :: "8 word"
  hours :: "8 word"
  minutes :: "8 word"
  seconds :: "8 word"
  milliSeconds :: "16 word"
  month :: "8 word"
  day :: "8 word"
  year :: "16 word"
  offset :: "16 word"

record blpapi_HighPrecisionDatetime_t =
  datetime :: blpapi_Datetime_t
  picoseconds :: "32 word"

datatype blpapi_SchemaTypeDefinition_t =
  SchemaTypeDefinition (blpapi_SchemaTypeDefinition_isComplexType: bool)

datatype blpapi_SchemaElementDefinition_t =
  SchemaElementDefinition (blpapi_SchemaElementDefinition_type: blpapi_SchemaTypeDefinition_t)

text \<open>
  An element answers its shape predicates, its name, its datatype tag and its schema
  definition, and holds its sub-elements (one entry per index below
  \<open>blpapi_Element_numElements\<close>) and its values (one slot per index below
  \<open>blpapi_Element_numValues\<close>). A value slot holds what each typed accessor answers at
  that index.
\<close>

datatype blpapi_Element_t = Element
    (blpapi_Element_nameString: string)
    (blpapi_Element_datatype: int)
    (blpapi_Element_isComplexType: bool)
    (blpapi_Element_isArray: bool)
    (blpapi_Element_isNull: bool)
    (blpapi_Element_definition: blpapi_SchemaElementDefinition_t)
    (subElements: "blpapi_Element_t option list")
    (valueSlots: "value_slot list")
and value_slot = ValueSlot
    (asBool: "int option")
    (asInt64: "64 word option")
    (asFloat64: "float64 option")
    (asString: "string option")
    (asBytes: "8 word list option")
    (asHighPrecisionDatetime: "blpapi_HighPrecisionDatetime_t option")
    (asElement: "blpapi_Element_t option")

definition blpapi_Element_numElements :: "blpapi_Element_t \<Rightarrow> nat" where
  "blpapi_Element_numElements e = length (subElements e)"

definition blpapi_Element_numValues :: "blpapi_Element_t \<Rightarrow> nat" where
  "blpapi_Element_numValues e = length (valueSlots e)"

definition blpapi_Element_getElementAt :: "blpapi_Element_t \<Rightarrow> nat \<Rightarrow> blpapi_Element_t option" where
  "blpapi_Element_getElementAt e i =
     (if i < length (subElements e) then subElements e ! i else None)"

definition getValueAs :: "(value_slot \<Rightarrow> 'a option) \<Rightarrow> blpapi_Element_t \<Rightarrow> nat \<Rightarrow> 'a option" where
  "getValueAs acc e i = (if i < length (valueSlots e) then acc (valueSlots e ! i) else None)"

definition blpapi_Element_getValueAsBool :: "blpapi_Element_t \<Rightarrow> nat \<Rightarrow> int option" where
  "blpapi_Element_getValueAsBool = getValueAs asBool"

definition blpapi_Element_getValueAsInt64 :: "blpapi_Element_t \<Rightarrow> nat \<Rightarrow> 64 word option" where
  "blpapi_Element_getValueAsInt64 = getValueAs asInt64"

definition blpapi_Element_getValueAsFloat64 :: "blpapi_Element_t \<Rightarrow> nat \<Rightarrow> float64 option" where
  "blpapi_Element_getValueAsFloat64 = getValueAs asFloat64"

definition blpapi_Element_getValueAsString :: "blpapi_Element_t \<Rightarrow> nat \<Rightarrow> string option" where
  "blpapi_Element_getValueAsString = getValueAs asString"

definition blpapi_Element_getValueAsBytes :: "blpapi_Element_t \<Rightarrow> nat \<Rightarrow> 8 word list option" where
  "blpapi_Element_getValueAsBytes = getValueAs asBytes"

definition blpapi_Element_getValueAsHighPrecisionDatetime ::
    "blpapi_Element_t \<Rightarrow> nat \<Rightarrow> blpapi_HighPrecisionDatetime_t option" where
  "blpapi_Element_getValueAsHighPrecisionDatetime = getValueAs asHighPrecisionDatetime"

definition blpapi_Element_getValueAsElement :: "blpapi_Element_t \<Rightarrow> nat \<Rightarrow> blpapi_Element_t option" where
  "blpapi_Element_getValueAsElement = getValueAs asElement"

text \<open>The datatype tags, with the values of the SDK header \<open>blpapi_types.h\<close>.\<close>

definition BLPAPI_DATATYPE_BOOL :: int where "BLPAPI_DATATYPE_BOOL = 1"
definition BLPAPI_DATATYPE_CHAR :: int where "BLPAPI_DATATYPE_CHAR = 2"
definition BLPAPI_DATATYPE_BYTE :: int where "BLPAPI_DATATYPE_BYTE = 3"
definition BLPAPI_DATATYPE_INT32 :: int where "BLPAPI_DATATYPE_INT32 = 4"
definition BLPAPI_DATATYPE_INT64 :: int where "BLPAPI_DATATYPE_INT64 = 5"
definition BLPAPI_DATATYPE_FLOAT32 :: int where "BLPAPI_DATATYPE_FLOAT32 = 6"
definition BLPAPI_DATATYPE_FLOAT64 :: int where "BLPAPI_DATATYPE_FLOAT64 = 7"
definition BLPAPI_DATATYPE_STRING :: int where "BLPAPI_DATATYPE_STRING = 8"
definition BLPAPI_DATATYPE_BYTEARRAY :: int where "BLPAPI_DATATYPE_BYTEARRAY = 9"
definition BLPAPI_DATATYPE_DATE :: int where "BLPAPI_DATATYPE_DATE = 10"
definition BLPAPI_DATATYPE_TIME :: int where "BLPAPI_DATATYPE_TIME = 11"
definition BLPAPI_DATATYPE_DATETIME :: int where "BLPAPI_DATATYPE_DATETIME = 13"
definition BLPAPI_DATATYPE_ENUMERATION :: int where "BLPAPI_DATATYPE_ENUMERATION = 14"
definition BLPAPI_DATATYPE_SEQUENCE :: int where "BLPAPI_DATATYPE_SEQUENCE = 15"
definition BLPAPI_DATATYPE_CHOICE :: int where "BLPAPI_DATATYPE_CHOICE = 16"


section \<open>The Python side: objects, reference counts, the error indicator\<close>

text \<open>
  A \<open>PyObject*\<close> is an address; \<open>NULL\<close> is 0. The three singletons \<open>None\<close>,
  \<open>False\<close> and \<open>True\<close> are statically allocated: they have a reference count but
  are never deallocated. So are the integer objects that the interpreter keeps for the
  values from \<open>-5\<close> to \<open>256\<close> (\<open>NSMALLNEGINTS\<close> and \<open>NSMALLPOSINTS\<close> in
  CPython) and hands out, with one more reference, whenever an integer object for one of
  these values is asked for. Every other object lives in the store under the address it
  was allocated at, with its reference count and its contents; containers hold the
  addresses of their items. Addresses are handed out in increasing order and never reused,
  so a pointer to a deallocated object stays recognisable.
\<close>

type_synonym addr = nat

definition NULL :: addr where "NULL = 0"
definition Py_None :: addr where "Py_None = 1"
definition Py_False :: addr where "Py_False = 2"
definition Py_True :: addr where "Py_True = 3"

definition NSMALLNEGINTS :: int where "NSMALLNEGINTS = 5"
definition NSMALLPOSINTS :: int where "NSMALLPOSINTS = 257"

definition is_small_int :: "int \<Rightarrow> bool" where
  "is_small_int n = (- NSMALLNEGINTS \<le> n \<and> n < NSMALLPOSINTS)"

text \<open>The cached integer objects follow the three singletons: \<open>-5\<close> is at address 4,
  \<open>256\<close> at address 265.\<close>

definition small_int_addr :: "int \<Rightarrow> addr" where
  "small_int_addr n = nat (n + NSMALLNEGINTS) + 4"

definition is_static :: "addr \<Rightarrow> bool" where
  "is_static a =
     (a = Py_None \<or> a = Py_False \<or> a = Py_True
      \<or> (small_int_addr (- NSMALLNEGINTS) \<le> a \<and> a \<le> small_int_addr (NSMALLPOSINTS - 1)))"

datatype pyval =
    PyLong int
  | PyFloat float64
  | PyUnicode string
  | PyBytes "8 word list"
  | PyTemporal "int list"
  | PyList "addr list"
  | PyDict "(string \<times> addr) list"
  | PyOpaque string

datatype pyexc =
    Exception string
  | MemoryError
  | ImportError
  | AttributeError
  | IndexError
  | SystemError
  | UnicodeDecodeError
  | RaisedByHelper

text \<open>
  The calls into the native library and into the interpreter's lookup machinery that the
  conversion makes, in the order it makes them.
\<close>

datatype event =
    Call_datatype
  | Call_getValueAsBool nat
  | Call_getValueAsInt64 nat
  | Call_getValueAsFloat64 nat
  | Call_getValueAsString nat
  | Call_getValueAsBytes nat
  | Call_getValueAsHighPrecisionDatetime nat
  | Call_getValueAsElement nat
  | Call_getElementAt nat
  | Call_isComplexTypeOfDefinition
  | Call_ImportModule string
  | Call_GetAttr string
  | Call_toPyTimeFromInts "int list"

record pystate =
  heap :: "(addr \<times> int \<times> pyval) list"
  static_refcnt :: "addr \<Rightarrow> int"
  next_addr :: addr
  alloc_plan :: "bool list"
  err :: "pyexc option"
  violations :: "addr list"
  trace :: "event list"
  blpapiDatetimeModule :: addr
  datetimeUtil :: addr
  convertToPyTime :: addr

text \<open>
  \<open>alloc_plan\<close> decides the coming allocation requests: a leading \<open>False\<close> makes the
  next request fail with \<open>MemoryError\<close>; an empty plan lets every request succeed.
  \<open>violations\<close> records each access to an address that holds no live object (C leaves
  such an access undefined). The last three fields are the function-local statics of
  \<open>getScalarValue\<close>.
\<close>

text \<open>
  What the interpreter answers to the lookups of the date/time helper and whether the
  helper raises. The helper \<open>blpapi.datetime._DatetimeUtil.toPyTimeFromInts\<close> is Python
  code outside \<open>ffi_utils.c\<close>; only its being called with nine integers is modelled, and
  its result is an opaque object that remembers them.
\<close>

record pyenv =
  import_result :: "string \<Rightarrow> addr"
  attr_result :: "addr \<Rightarrow> string \<Rightarrow> addr"
  helper_raises :: "int list \<Rightarrow> bool"

definition lookup :: "pystate \<Rightarrow> addr \<Rightarrow> (int \<times> pyval) option" where
  "lookup s a = map_of (heap s) a"

definition log_call :: "event \<Rightarrow> pystate \<Rightarrow> pystate" where
  "log_call ev s = s\<lparr>trace := trace s @ [ev]\<rparr>"

definition violation :: "addr \<Rightarrow> pystate \<Rightarrow> pystate" where
  "violation a s = s\<lparr>violations := violations s @ [a]\<rparr>"

definition PyErr_SetString :: "string \<Rightarrow> pystate \<Rightarrow> pystate" where
  "PyErr_SetString msg s = s\<lparr>err := Some (Exception msg)\<rparr>"

definition PyErr_Occurred :: "pystate \<Rightarrow> pyexc option" where
  "PyErr_Occurred s = err s"

definition Py_INCREF :: "addr \<Rightarrow> pystate \<Rightarrow> pystate" where
  "Py_INCREF a s =
     (if is_static a then s\<lparr>static_refcnt := (static_refcnt s)(a := static_refcnt s a + 1)\<rparr>
      else case lookup s a of
          None \<Rightarrow> violation a s
        | Some (rc, v) \<Rightarrow> s\<lparr>heap := AList.update a (rc + 1, v) (heap s)\<rparr>)"

definition Py_XINCREF :: "addr \<Rightarrow> pystate \<Rightarrow> pystate" where
  "Py_XINCREF a s = (if a = NULL then s else Py_INCREF a s)"

fun items_of :: "pyval \<Rightarrow> addr list" where
  "items_of (PyList xs) = xs"
| "items_of (PyDict kvs) = map snd kvs"
| "items_of _ = []"

text \<open>
  Dropping references. The work list holds the pointers still to be released, as
  \<open>Py_XDECREF\<close> would: a null pointer is skipped; a singleton only loses a count; a live
  object whose count reaches zero is deallocated and the pointers it held are released in
  turn; any other live object loses a count. Releasing a pointer to no live object is a
  violation.
\<close>

function decref_all :: "addr list \<Rightarrow> pystate \<Rightarrow> pystate" where
  "decref_all [] s = s"
| "decref_all (a # as) s =
     (if a = NULL then decref_all as s
      else if is_static a
        then decref_all as (s\<lparr>static_refcnt := (static_refcnt s)(a := static_refcnt s a - 1)\<rparr>)
      else case map_of (heap s) a of
          None \<Rightarrow> decref_all as (s\<lparr>violations := violations s @ [a]\<rparr>)
        | Some (rc, v) \<Rightarrow>
            if rc - 1 = 0
            then decref_all (items_of v @ as) (s\<lparr>heap := AList.delete a (heap s)\<rparr>)
            else decref_all as (s\<lparr>heap := AList.update a (rc - 1, v) (heap s)\<rparr>))"
  by pat_completeness auto

lemma length_delete_less:
  "map_of al a = Some x \<Longrightarrow> length (AList.delete a al) < length al"
  by (induction al) (auto split: if_splits simp: less_Suc_eq_le AList.delete_eq length_filter_le)

lemma length_update_present:
  "map_of al a = Some x \<Longrightarrow> length (AList.update a y al) = length al"
  by (induction al) (auto split: if_splits)

termination decref_all
  by (relation "measures [\<lambda>(as, s). length (heap s), \<lambda>(as, s). length as]")
     (auto simp: length_delete_less length_update_present)

definition Py_XDECREF :: "addr \<Rightarrow> pystate \<Rightarrow> pystate" where
  "Py_XDECREF a s = decref_all [a] s"

definition Py_DECREF :: "addr \<Rightarrow> pystate \<Rightarrow> pystate" where
  "Py_DECREF a s = (if a = NULL then violation NULL s else decref_all [a] s)"

text \<open>
  Well-formed UTF-8, as the interpreter's strict decoder accepts it: one byte below
  \<open>0x80\<close>, or a lead byte followed by one, two or three continuation bytes, without
  overlong forms, surrogates, or code points above \<open>U+10FFFF\<close>.
\<close>

definition utf8_cont :: "nat \<Rightarrow> bool" where
  "utf8_cont b = (0x80 \<le> b \<and> b \<le> 0xBF)"

fun utf8_valid_bytes :: "nat list \<Rightarrow> bool" where
  "utf8_valid_bytes [] = True"
| "utf8_valid_bytes [b0] = (b0 < 0x80)"
| "utf8_valid_bytes [b0, b1] =
     (if b0 < 0x80 then utf8_valid_bytes [b1]
      else 0xC2 \<le> b0 \<and> b0 \<le> 0xDF \<and> utf8_cont b1)"
| "utf8_valid_bytes [b0, b1, b2] =
     (if b0 < 0x80 then utf8_valid_bytes [b1, b2]
      else if 0xC2 \<le> b0 \<and> b0 \<le> 0xDF then utf8_cont b1 \<and> utf8_valid_bytes [b2]
      else 0xE0 \<le> b0 \<and> b0 \<le> 0xEF
           \<and> (if b0 = 0xE0 then 0xA0 \<le> b1 \<and> b1 \<le> 0xBF
               else if b0 = 0xED then 0x80 \<le> b1 \<and> b1 \<le> 0x9F
               else utf8_cont b1)
           \<and> utf8_cont b2)"
| "utf8_valid_bytes (b0 # b1 # b2 # b3 # rest) =
     (if b0 < 0x80 then utf8_valid_bytes (b1 # b2 # b3 # rest)
      else if 0xC2 \<le> b0 \<and> b0 \<le> 0xDF then utf8_cont b1 \<and> utf8_valid_bytes (b2 # b3 # rest)
      else if 0xE0 \<le> b0 \<and> b0 \<le> 0xEF
      then (if b0 = 0xE0 then 0xA0 \<le> b1 \<and> b1 \<le> 0xBF
            else if b0 = 0xED then 0x80 \<le> b1 \<and> b1 \<le> 0x9F
            else utf8_cont b1)
           \<and> utf8_cont b2 \<and> utf8_valid_bytes (b3 # rest)
      else 0xF0 \<le> b0 \<and> b0 \<le> 0xF4
           \<and> (if b0 = 0xF0 then 0x90 \<le> b1 \<and> b1 \<le> 0xBF
               else if b0 = 0xF4 then 0x80 \<le> b1 \<and> b1 \<le> 0x8F
               else utf8_cont b1)
           \<and> utf8_cont b2 \<and> utf8_cont b3 \<and> utf8_valid_bytes rest)"

definition utf8_valid :: "string \<Rightarrow> bool" where
  "utf8_valid v = utf8_valid_bytes (map of_char v)"

text \<open>Allocation of a new object with one reference, owned by the caller.\<close>

definition new_object :: "pyval \<Rightarrow> pystate \<Rightarrow> addr \<times> pystate" where
  "new_object v s =
     (case alloc_plan s of
        False # plan \<Rightarrow> (NULL, s\<lparr>alloc_plan := plan, err := Some MemoryError\<rparr>)
      | _ \<Rightarrow> (next_addr s,
              s\<lparr>heap := AList.update (next_addr s) (1, v) (heap s),
                next_addr := Suc (next_addr s),
                alloc_plan := tl (alloc_plan s)\<rparr>))"

definition Py_RETURN_NONE :: "pystate \<Rightarrow> addr \<times> pystate" where
  "Py_RETURN_NONE s = (Py_None, Py_INCREF Py_None s)"

definition PyBool_FromLong :: "int \<Rightarrow> pystate \<Rightarrow> addr \<times> pystate" where
  "PyBool_FromLong v s =
     (if v \<noteq> 0 then (Py_True, Py_INCREF Py_True s) else (Py_False, Py_INCREF Py_False s))"

text \<open>
  \<open>PyLong_FromLongLong\<close> answers the cached object, with one more reference, for a value
  from \<open>-5\<close> to \<open>256\<close>, and a new object for any other value.
\<close>

definition PyLong_FromLongLong :: "64 word \<Rightarrow> pystate \<Rightarrow> addr \<times> pystate" where
  "PyLong_FromLongLong v s =
     (if is_small_int (sint v)
      then (small_int_addr (sint v), Py_INCREF (small_int_addr (sint v)) s)
      else new_object (PyLong (sint v)) s)"

definition PyFloat_FromDouble :: "float64 \<Rightarrow> pystate \<Rightarrow> addr \<times> pystate" where
  "PyFloat_FromDouble v s = new_object (PyFloat v) s"

text \<open>
  \<open>PyUnicode_FromString\<close> decodes the bytes of a C string as UTF-8. It asks for the
  memory of the result first; bytes that are not well-formed UTF-8 then make it give the
  memory back and fail with \<open>UnicodeDecodeError\<close>.
\<close>

definition PyUnicode_FromString :: "string \<Rightarrow> pystate \<Rightarrow> addr \<times> pystate" where
  "PyUnicode_FromString v s =
     (case alloc_plan s of
        False # plan \<Rightarrow> (NULL, s\<lparr>alloc_plan := plan, err := Some MemoryError\<rparr>)
      | _ \<Rightarrow>
          if utf8_valid v then new_object (PyUnicode v) s
          else (NULL, s\<lparr>alloc_plan := tl (alloc_plan s), err := Some UnicodeDecodeError\<rparr>))"

definition PyBytes_FromStringAndSize :: "8 word list \<Rightarrow> nat \<Rightarrow> pystate \<Rightarrow> addr \<times> pystate" where
  "PyBytes_FromStringAndSize v n s = new_object (PyBytes (take n v)) s"

definition PyList_New :: "nat \<Rightarrow> pystate \<Rightarrow> addr \<times> pystate" where
  "PyList_New n s = new_object (PyList (replicate n NULL)) s"

definition PyDict_New :: "pystate \<Rightarrow> addr \<times> pystate" where
  "PyDict_New s = new_object (PyDict []) s"

text \<open>
  \<open>PyList_SetItem\<close> takes over the caller's reference to the item and releases the item
  that was in the slot. Outside the list's bounds, or on something that is no list, it
  releases the item and fails.
\<close>

definition PyList_SetItem :: "addr \<Rightarrow> nat \<Rightarrow> addr \<Rightarrow> pystate \<Rightarrow> int \<times> pystate" where
  "PyList_SetItem l i v s =
     (case lookup s l of
        Some (rc, PyList xs) \<Rightarrow>
          if i < length xs
          then (0, Py_XDECREF (xs ! i) (s\<lparr>heap := AList.update l (rc, PyList (xs[i := v])) (heap s)\<rparr>))
          else (-1, (Py_XDECREF v s)\<lparr>err := Some IndexError\<rparr>)
      | _ \<Rightarrow> (-1, (Py_XDECREF v s)\<lparr>err := Some SystemError\<rparr>))"

text \<open>
  \<open>PyDict_SetItemString\<close> does not take over the caller's reference: it adds one of its
  own. It builds a key object first, with \<open>PyUnicode_FromString\<close>: an allocation request
  that can fail, and a decoding of the key's bytes as UTF-8 that can fail. An entry under
  the same key is replaced and the value it held is released.
\<close>

definition PyDict_SetItemString :: "addr \<Rightarrow> string \<Rightarrow> addr \<Rightarrow> pystate \<Rightarrow> int \<times> pystate" where
  "PyDict_SetItemString d k v s =
     (case alloc_plan s of
        False # plan \<Rightarrow> (-1, s\<lparr>alloc_plan := plan, err := Some MemoryError\<rparr>)
      | _ \<Rightarrow>
        (let s1 = s\<lparr>alloc_plan := tl (alloc_plan s)\<rparr> in
         if \<not> utf8_valid k then (-1, s1\<lparr>err := Some UnicodeDecodeError\<rparr>)
         else
         case lookup s1 d of
           Some (rc, PyDict kvs) \<Rightarrow>
             (let s2 = Py_INCREF v s1;
                  s3 = s2\<lparr>heap := AList.update d (rc, PyDict (AList.update k v kvs)) (heap s2)\<rparr>
              in case map_of kvs k of
                   None \<Rightarrow> (0, s3)
                 | Some old \<Rightarrow> (0, Py_XDECREF old s3))
         | _ \<Rightarrow> (-1, s1\<lparr>err := Some SystemError\<rparr>)))"

definition PyImport_ImportModule :: "pyenv \<Rightarrow> string \<Rightarrow> pystate \<Rightarrow> addr \<times> pystate" where
  "PyImport_ImportModule env name s =
     (let s1 = log_call (Call_ImportModule name) s; m = import_result env name in
      if m = NULL then (NULL, s1\<lparr>err := Some ImportError\<rparr>) else (m, Py_INCREF m s1))"

text \<open>
  \<open>PyObject_GetAttr\<close> reads the attribute name from the name object; the source passes
  the result of \<open>PyUnicode_FromString\<close> unchecked, so a null name (or object) is an
  access to no live object.
\<close>

definition PyObject_GetAttr :: "pyenv \<Rightarrow> addr \<Rightarrow> addr \<Rightarrow> pystate \<Rightarrow> addr \<times> pystate" where
  "PyObject_GetAttr env obj name s =
     (case lookup s name of
        Some (rc, PyUnicode attr) \<Rightarrow>
          (let s1 = log_call (Call_GetAttr attr) s; r = attr_result env obj attr in
           if r = NULL then (NULL, s1\<lparr>err := Some AttributeError\<rparr>) else (r, Py_INCREF r s1))
      | _ \<Rightarrow> (NULL, violation name s))"

definition PyObject_CallFunction :: "pyenv \<Rightarrow> addr \<Rightarrow> int list \<Rightarrow> pystate \<Rightarrow> addr \<times> pystate" where
  "PyObject_CallFunction env callable args s =
     (case lookup s callable of
        None \<Rightarrow> (NULL, violation callable s)
      | Some _ \<Rightarrow>
          (let s1 = log_call (Call_toPyTimeFromInts args) s in
           if helper_raises env args then (NULL, s1\<lparr>err := Some RaisedByHelper\<rparr>)
           else new_object (PyTemporal args) s1))"


section \<open>The scalar converter\<close>

text \<open>
  The one-time resolution of the date/time helper: the block of \<open>getScalarValue\<close>
  guarded by \<open>convertToPyTime == NULL\<close>. It answers \<open>False\<close> where the source
  returns \<open>NULL\<close> from \<open>getScalarValue\<close>.
\<close>

definition init_convertToPyTime :: "pyenv \<Rightarrow> pystate \<Rightarrow> bool \<times> pystate" where
  "init_convertToPyTime env s =
     (let (m, s1) = PyImport_ImportModule env ''blpapi.datetime'' s;
          s2 = s1\<lparr>blpapiDatetimeModule := m\<rparr>
      in if blpapiDatetimeModule s2 = NULL
         then (False, PyErr_SetString ''Internal error getting blpapi.datetime'' s2)
         else
           (let (n1, s3) = PyUnicode_FromString ''_DatetimeUtil'' s2;
                (u, s4) = PyObject_GetAttr env (blpapiDatetimeModule s3) n1 s3;
                s5 = s4\<lparr>datetimeUtil := u\<rparr>
            in if datetimeUtil s5 = NULL
               then (False, PyErr_SetString ''Internal error getting _DatetimeUtil''
                              (Py_DECREF (blpapiDatetimeModule s5) s5))
               else
                 (let (n2, s6) = PyUnicode_FromString ''toPyTimeFromInts'' s5;
                      (f, s7) = PyObject_GetAttr env (datetimeUtil s6) n2 s6;
                      s8 = s7\<lparr>convertToPyTime := f\<rparr>
                  in if convertToPyTime s8 = NULL
                     then (False, PyErr_SetString
                                    (''Internal error getting '' @ [CHR 0x27]
                                       @ ''toPyTimeFromInts'' @ [CHR 0x27])
                                    (Py_DECREF (datetimeUtil s8)
                                      (Py_DECREF (blpapiDatetimeModule s8) s8)))
                     else (True, s8))))"

text \<open>
  The last argument of the helper call, computed as C computes it: \<open>milliSeconds\<close> is
  promoted to a 32-bit int and multiplied by 1000, \<open>picoseconds\<close> is divided as an
  unsigned 32-bit integer, and the sum is taken in 32 bits.
\<close>

definition subsecond_arg :: "blpapi_HighPrecisionDatetime_t \<Rightarrow> 32 word" where
  "subsecond_arg hp =
     (ucast (milliSeconds (datetime hp)) * 1000) + (picoseconds hp div 1000000)"

definition toPyTimeFromInts_args :: "blpapi_HighPrecisionDatetime_t \<Rightarrow> int list" where
  "toPyTimeFromInts_args hp =
     [uint (parts (datetime hp)),
      sint (offset (datetime hp)),
      uint (year (datetime hp)),
      uint (month (datetime hp)),
      uint (day (datetime hp)),
      uint (hours (datetime hp)),
      uint (minutes (datetime hp)),
      uint (seconds (datetime hp)),
      sint (subsecond_arg hp)]"

text \<open>
  The case block of \<open>getScalarValue\<close> for the tags \<open>DATE\<close>, \<open>TIME\<close> and
  \<open>DATETIME\<close>, the date/time adapter.
\<close>

definition getScalarValue_datetime ::
    "pyenv \<Rightarrow> blpapi_Element_t \<Rightarrow> nat \<Rightarrow> pystate \<Rightarrow> addr \<times> pystate" where
  "getScalarValue_datetime env element index s =
     (let (ok, s1) = (if convertToPyTime s = NULL then init_convertToPyTime env s
                      else (True, s))
      in if \<not> ok then (NULL, s1)
         else
           (let s2 = log_call (Call_getValueAsHighPrecisionDatetime index) s1 in
            case blpapi_Element_getValueAsHighPrecisionDatetime element index of
              None \<Rightarrow> (NULL, PyErr_SetString ''Internal error getting datetime'' s2)
            | Some highPrecisionDatetimeBuffer \<Rightarrow>
                if parts (datetime highPrecisionDatetimeBuffer) = 0
                then Py_RETURN_NONE s2
                else PyObject_CallFunction env (convertToPyTime s2)
                       (toPyTimeFromInts_args highPrecisionDatetimeBuffer) s2))"

definition getScalarValue :: "pyenv \<Rightarrow> blpapi_Element_t \<Rightarrow> nat \<Rightarrow> pystate \<Rightarrow> addr \<times> pystate" where
  "getScalarValue env element index s0 =
     (let datatype = blpapi_Element_datatype element;
          s = log_call Call_datatype s0
      in
      if datatype = BLPAPI_DATATYPE_BOOL then
        (let s1 = log_call (Call_getValueAsBool index) s in
         case blpapi_Element_getValueAsBool element index of
           None \<Rightarrow> (NULL, PyErr_SetString ''Internal error getting bool'' s1)
         | Some boolBuffer \<Rightarrow> PyBool_FromLong boolBuffer s1)
      else if datatype = BLPAPI_DATATYPE_BYTE \<or> datatype = BLPAPI_DATATYPE_INT32
              \<or> datatype = BLPAPI_DATATYPE_INT64 then
        (let s1 = log_call (Call_getValueAsInt64 index) s in
         case blpapi_Element_getValueAsInt64 element index of
           None \<Rightarrow> (NULL, PyErr_SetString ''Internal error getting int'' s1)
         | Some int64Buffer \<Rightarrow> PyLong_FromLongLong int64Buffer s1)
      else if datatype = BLPAPI_DATATYPE_FLOAT32 \<or> datatype = BLPAPI_DATATYPE_FLOAT64 then
        (let s1 = log_call (Call_getValueAsFloat64 index) s in
         case blpapi_Element_getValueAsFloat64 element index of
           None \<Rightarrow> (NULL, PyErr_SetString ''Internal error getting float'' s1)
         | Some floatBuffer \<Rightarrow> PyFloat_FromDouble floatBuffer s1)
      else if datatype = BLPAPI_DATATYPE_CHAR \<or> datatype = BLPAPI_DATATYPE_STRING
              \<or> datatype = BLPAPI_DATATYPE_ENUMERATION then
        (let s1 = log_call (Call_getValueAsString index) s in
         case blpapi_Element_getValueAsString element index of
           None \<Rightarrow> (NULL, PyErr_SetString ''Internal error getting string'' s1)
         | Some strValue \<Rightarrow> PyUnicode_FromString strValue s1)
      else if datatype = BLPAPI_DATATYPE_BYTEARRAY then
        (let s1 = log_call (Call_getValueAsBytes index) s in
         case blpapi_Element_getValueAsBytes element index of
           None \<Rightarrow> (NULL, PyErr_SetString ''Internal error getting bytes'' s1)
         | Some bytesValue \<Rightarrow> PyBytes_FromStringAndSize bytesValue (length bytesValue) s1)
      else if datatype = BLPAPI_DATATYPE_DATE \<or> datatype = BLPAPI_DATATYPE_TIME
              \<or> datatype = BLPAPI_DATATYPE_DATETIME then
        getScalarValue_datetime env element index s
      else (NULL, PyErr_SetString ''Internal datatype error'' s))"

section \<open>The record, array and top-level converters\<close>

text \<open>The \<open>ERROR\<close> labels of \<open>complexElementToPy\<close> and \<open>arrayElementToPy\<close>.\<close>

definition complexElementToPy_ERROR :: "addr \<Rightarrow> addr \<Rightarrow> pystate \<Rightarrow> addr \<times> pystate" where
  "complexElementToPy_ERROR pyDict subElementPy s =
     (let s1 = Py_XDECREF pyDict s;
          s2 = Py_XDECREF subElementPy s1
      in (NULL, if PyErr_Occurred s2 = None
                then PyErr_SetString ''Internal error converting a complex Element'' s2
                else s2))"

definition arrayElementToPy_ERROR :: "addr \<Rightarrow> addr \<Rightarrow> pystate \<Rightarrow> addr \<times> pystate" where
  "arrayElementToPy_ERROR pyList pyValue s =
     (let s1 = Py_XDECREF pyList s;
          s2 = Py_XDECREF pyValue s1
      in (NULL, if PyErr_Occurred s2 = None
                then PyErr_SetString ''Internal error converting an array Element'' s2
                else s2))"

text \<open>
  The loop of \<open>arrayElementToPy\<close> over values that are not complex, from the indices
  still to visit. Every jump to \<open>ERROR\<close> in it follows the assignment of a null
  \<open>pyValue\<close>.
\<close>

fun arrayElementToPy_scalar_loop ::
    "pyenv \<Rightarrow> blpapi_Element_t \<Rightarrow> nat list \<Rightarrow> addr \<Rightarrow> pystate \<Rightarrow> addr \<times> pystate" where
  "arrayElementToPy_scalar_loop env element [] pyList s = (pyList, s)"
| "arrayElementToPy_scalar_loop env element (i # rest) pyList s =
     (let (pyValue, s1) = getScalarValue env element i s in
      if pyValue = NULL then arrayElementToPy_ERROR pyList pyValue s1
      else arrayElementToPy_scalar_loop env element rest pyList
             (snd (PyList_SetItem pyList i pyValue s1)))"

text \<open>
  The three converters call each other. The two loops that recurse into
  \<open>blpapi_Element_toPy\<close> run over the sub-elements, respectively value slots, still to
  visit, with the index \<open>i\<close> of the first of them, and carry the local variable
  (\<open>subElementPy\<close>, \<open>pyValue\<close>) that the \<open>ERROR\<close> label releases: it keeps the value
  of the previous iteration until it is assigned again.
\<close>

fun blpapi_Element_toPy :: "pyenv \<Rightarrow> blpapi_Element_t \<Rightarrow> pystate \<Rightarrow> addr \<times> pystate"
and complexElementToPy :: "pyenv \<Rightarrow> blpapi_Element_t \<Rightarrow> pystate \<Rightarrow> addr \<times> pystate"
and complexElementToPy_loop ::
    "pyenv \<Rightarrow> blpapi_Element_t option list \<Rightarrow> nat \<Rightarrow> addr \<Rightarrow> addr \<Rightarrow> pystate \<Rightarrow> addr \<times> pystate"
and arrayElementToPy :: "pyenv \<Rightarrow> blpapi_Element_t \<Rightarrow> pystate \<Rightarrow> addr \<times> pystate"
and arrayElementToPy_complex_loop ::
    "pyenv \<Rightarrow> value_slot list \<Rightarrow> nat \<Rightarrow> addr \<Rightarrow> addr \<Rightarrow> pystate \<Rightarrow> addr \<times> pystate"
where
  "blpapi_Element_toPy env element s =
     (if blpapi_Element_isComplexType element then complexElementToPy env element s
      else if blpapi_Element_isArray element then arrayElementToPy env element s
      else if blpapi_Element_isNull element then Py_RETURN_NONE s
      else getScalarValue env element 0 s)"
| "complexElementToPy env (Element nm dt cx ar nl df subs vals) s =
     (let (pyDict, s1) = PyDict_New s in
      if pyDict = NULL then complexElementToPy_ERROR pyDict NULL s1
      else complexElementToPy_loop env subs 0 pyDict NULL s1)"
| "complexElementToPy_loop env [] i pyDict subElementPy s = (pyDict, s)"
| "complexElementToPy_loop env (got # rest) i pyDict subElementPy s =
     (let s1 = log_call (Call_getElementAt i) s in
      case got of
        None \<Rightarrow>
          complexElementToPy_ERROR pyDict subElementPy
            (PyErr_SetString ''Internal error in `Element.toPy`'' s1)
      | Some subElement \<Rightarrow>
          (let name = blpapi_Element_nameString subElement;
               (subElementPy', s2) = blpapi_Element_toPy env subElement s1
           in if subElementPy' = NULL then complexElementToPy_ERROR pyDict subElementPy' s2
              else
                (let (failed, s3) = PyDict_SetItemString pyDict name subElementPy' s2 in
                 if failed \<noteq> 0 then complexElementToPy_ERROR pyDict subElementPy' s3
                 else complexElementToPy_loop env rest (Suc i) pyDict subElementPy'
                        (Py_DECREF subElementPy' s3))))"
| "arrayElementToPy env (Element nm dt cx ar nl df subs vals) s =
     (let numValues = length vals;
          (pyList, s1) = PyList_New numValues s;
          typeDefinition = blpapi_SchemaElementDefinition_type df
      in if pyList = NULL then arrayElementToPy_ERROR pyList NULL s1
         else
           (let s2 = log_call Call_isComplexTypeOfDefinition s1 in
            if blpapi_SchemaTypeDefinition_isComplexType typeDefinition
            then arrayElementToPy_complex_loop env vals 0 pyList NULL s2
            else arrayElementToPy_scalar_loop env (Element nm dt cx ar nl df subs vals)
                   [0..<numValues] pyList s2))"
| "arrayElementToPy_complex_loop env [] i pyList pyValue s = (pyList, s)"
| "arrayElementToPy_complex_loop env (ValueSlot vb vi vf vs vy vh got # rest) i pyList pyValue s =
     (let s1 = log_call (Call_getValueAsElement i) s in
      case got of
        None \<Rightarrow>
          arrayElementToPy_ERROR pyList pyValue
            (PyErr_SetString ''Internal error in blpapi_Element_getValueAsElement'' s1)
      | Some result \<Rightarrow>
          (let (pyValue', s2) = blpapi_Element_toPy env result s1 in
           if pyValue' = NULL then arrayElementToPy_ERROR pyList pyValue' s2
           else arrayElementToPy_complex_loop env rest (Suc i) pyList pyValue'
                  (snd (PyList_SetItem pyList i pyValue' s2))))"

section \<open>The lifetime bridge\<close>

text \<open>
  A managed pointer handle, as the SDK header \<open>blpapi_correlationid.h\<close> declares it: the
  raw object pointer, four words of user data, and the manager function. A function
  pointer is either the address of \<open>managerFunc\<close> itself or another function's. Handles
  live in native memory, addressed by the \<open>void*\<close> the callback receives; the two
  arguments of the callback may be the same address.
\<close>

datatype manager_fn = Addr_managerFunc | Addr_other nat

record blpapi_ManagedPtr_t =
  pointer :: addr
  userData :: "int list"
  manager :: manager_fn

record bridge_state =
  handles :: "nat \<Rightarrow> blpapi_ManagedPtr_t"
  gil_depth :: nat
  py :: pystate

definition BLPAPI_MANAGEDPTR_COPY :: int where "BLPAPI_MANAGEDPTR_COPY = 1"
definition BLPAPI_MANAGEDPTR_DESTROY :: int where "BLPAPI_MANAGEDPTR_DESTROY = - 1"

definition PyGILState_Ensure :: "bridge_state \<Rightarrow> bridge_state" where
  "PyGILState_Ensure b = b\<lparr>gil_depth := Suc (gil_depth b)\<rparr>"

definition PyGILState_Release :: "bridge_state \<Rightarrow> bridge_state" where
  "PyGILState_Release b = b\<lparr>gil_depth := gil_depth b - 1\<rparr>"

definition incref :: "addr \<Rightarrow> bridge_state \<Rightarrow> bridge_state" where
  "incref obj b =
     (let b1 = PyGILState_Ensure b;
          b2 = b1\<lparr>py := Py_XINCREF obj (py b1)\<rparr>
      in PyGILState_Release b2)"

definition managerFunc :: "nat \<Rightarrow> nat \<Rightarrow> int \<Rightarrow> bridge_state \<Rightarrow> int \<times> bridge_state" where
  "managerFunc mptr sptr operation b =
     (let b1 = PyGILState_Ensure b;
          b2 = (if operation = BLPAPI_MANAGEDPTR_COPY then
                  (let b3 = b1\<lparr>handles := (handles b1)
                              (mptr := (handles b1 mptr)\<lparr>pointer := pointer (handles b1 sptr)\<rparr>)\<rparr>;
                       b4 = b3\<lparr>handles := (handles b3)
                              (mptr := (handles b3 mptr)\<lparr>manager := manager (handles b3 sptr)\<rparr>)\<rparr>
                   in b4\<lparr>py := Py_XINCREF (pointer (handles b4 mptr)) (py b4)\<rparr>)
                else if operation = BLPAPI_MANAGEDPTR_DESTROY then
                  b1\<lparr>py := Py_XDECREF (pointer (handles b1 mptr)) (py b1)\<rparr>
                else b1)
      in (0, PyGILState_Release b2))"

definition setmptr :: "nat \<Rightarrow> bridge_state \<Rightarrow> bridge_state" where
  "setmptr p b = b\<lparr>handles := (handles b)(p := (handles b p)\<lparr>manager := Addr_managerFunc\<rparr>)\<rparr>"

definition is_known_obj :: "nat \<Rightarrow> bridge_state \<Rightarrow> int" where
  "is_known_obj p b = (if manager (handles b p) = Addr_managerFunc then 1 else 0)"

section \<open>Observations on a state\<close>

text \<open>
  The reference count of the object at an address: a singleton's count, a live object's
  count, and 0 where no object lives.
\<close>

definition refcnt_of :: "pystate \<Rightarrow> addr \<Rightarrow> int" where
  "refcnt_of s a =
     (if is_static a then static_refcnt s a
      else case lookup s a of None \<Rightarrow> 0 | Some (rc, v) \<Rightarrow> rc)"

text \<open>
  A pointer that a handle may carry: null, a singleton, or a live object that somebody
  holds a reference to.
\<close>

definition holds_object :: "pystate \<Rightarrow> addr \<Rightarrow> bool" where
  "holds_object s a =
     (a = NULL \<or> is_static a \<or> (case lookup s a of None \<Rightarrow> False | Some (rc, v) \<Rightarrow> 1 \<le> rc))"

text \<open>An example state of the bridge: one live object at address 266 with two references,
  held by the handle at native address 100; the handle at 200 is managed by other code.\<close>

definition example_py :: pystate where
  "example_py =
     \<lparr>heap = [(266, (2, PyOpaque ''callback''))], static_refcnt = (\<lambda>a. 10), next_addr = 267,
      alloc_plan = [], err = None, violations = [], trace = [],
      blpapiDatetimeModule = NULL, datetimeUtil = NULL, convertToPyTime = NULL\<rparr>"

definition example_bridge :: bridge_state where
  "example_bridge =
     \<lparr>handles = (\<lambda>h. if h = 100
                      then \<lparr>pointer = 266, userData = [0, 0, 0, 0], manager = Addr_managerFunc\<rparr>
                      else \<lparr>pointer = NULL, userData = [0, 0, 0, 0], manager = Addr_other 7\<rparr>),
      gil_depth = 0,
      py = example_py\<rparr>"

text \<open>Whether the next allocation request succeeds.\<close>

definition alloc_ok :: "pystate \<Rightarrow> bool" where
  "alloc_ok s = (case alloc_plan s of False # plan \<Rightarrow> False | _ \<Rightarrow> True)"

text \<open>The lookup steps of the helper resolution, among the logged calls.\<close>

fun is_lookup :: "event \<Rightarrow> bool" where
  "is_lookup (Call_ImportModule name) = True"
| "is_lookup (Call_GetAttr name) = True"
| "is_lookup _ = False"

definition lookup_events :: "pystate \<Rightarrow> event list" where
  "lookup_events s = filter is_lookup (trace s)"

text \<open>The calls of the date/time construction helper, among the logged calls.\<close>

fun is_helper_call :: "event \<Rightarrow> bool" where
  "is_helper_call (Call_toPyTimeFromInts args) = True"
| "is_helper_call _ = False"

section \<open>Example inputs\<close>

text \<open>
  An interpreter in which the module \<open>blpapi.datetime\<close> is the object at address 266, its
  attribute \<open>_DatetimeUtil\<close> the object at 267 and that one's attribute
  \<open>toPyTimeFromInts\<close> the object at 268; a second one in which the class has no such
  attribute; and a state that holds these three objects and has resolved nothing yet.
\<close>

definition example_env :: pyenv where
  "example_env =
     \<lparr>import_result = (\<lambda>name. if name = ''blpapi.datetime'' then 266 else NULL),
      attr_result = (\<lambda>obj attr. if obj = 266 \<and> attr = ''_DatetimeUtil'' then 267
                                else if obj = 267 \<and> attr = ''toPyTimeFromInts'' then 268
                                else NULL),
      helper_raises = (\<lambda>args. False)\<rparr>"

definition broken_env :: pyenv where
  "broken_env =
     \<lparr>import_result = (\<lambda>name. if name = ''blpapi.datetime'' then 266 else NULL),
      attr_result = (\<lambda>obj attr. if obj = 266 \<and> attr = ''_DatetimeUtil'' then 267 else NULL),
      helper_raises = (\<lambda>args. False)\<rparr>"

definition example_state :: pystate where
  "example_state =
     \<lparr>heap = [(266, (1, PyOpaque ''module blpapi.datetime'')),
              (267, (1, PyOpaque ''class _DatetimeUtil'')),
              (268, (1, PyOpaque ''function toPyTimeFromInts''))],
      static_refcnt = (\<lambda>a. 10), next_addr = 269,
      alloc_plan = [], err = None, violations = [], trace = [],
      blpapiDatetimeModule = NULL, datetimeUtil = NULL, convertToPyTime = NULL\<rparr>"

definition warm_state :: pystate where
  "warm_state = example_state\<lparr>blpapiDatetimeModule := 266, datetimeUtil := 267, convertToPyTime := 268\<rparr>"

definition scalar_definition :: blpapi_SchemaElementDefinition_t where
  "scalar_definition = SchemaElementDefinition (SchemaTypeDefinition False)"

definition complex_definition :: blpapi_SchemaElementDefinition_t where
  "complex_definition = SchemaElementDefinition (SchemaTypeDefinition True)"

definition no_value :: value_slot where
  "no_value = ValueSlot None None None None None None None"

definition bool_element :: "string \<Rightarrow> int \<Rightarrow> blpapi_Element_t" where
  "bool_element name b =
     Element name BLPAPI_DATATYPE_BOOL False False False scalar_definition []
       [ValueSlot (Some b) None None None None None None]"

definition int64_slot :: "64 word \<Rightarrow> value_slot" where
  "int64_slot n = ValueSlot None (Some n) None None None None None"

definition int64_element :: "string \<Rightarrow> 64 word \<Rightarrow> blpapi_Element_t" where
  "int64_element name n =
     Element name BLPAPI_DATATYPE_INT64 False False False scalar_definition [] [int64_slot n]"

definition string_element :: "string \<Rightarrow> string \<Rightarrow> blpapi_Element_t" where
  "string_element name v =
     Element name BLPAPI_DATATYPE_STRING False False False scalar_definition []
       [ValueSlot None None None (Some v) None None None]"

definition datetime_element :: "string \<Rightarrow> blpapi_HighPrecisionDatetime_t \<Rightarrow> blpapi_Element_t" where
  "datetime_element name hp =
     Element name BLPAPI_DATATYPE_DATETIME False False False scalar_definition []
       [ValueSlot None None None None None (Some hp) None]"

definition choice_tagged_element :: blpapi_Element_t where
  "choice_tagged_element =
     Element ''c'' BLPAPI_DATATYPE_CHOICE False False False scalar_definition [] [no_value]"

definition int64_array :: "string \<Rightarrow> 64 word list \<Rightarrow> blpapi_Element_t" where
  "int64_array name ns =
     Element name BLPAPI_DATATYPE_INT64 False True False scalar_definition [] (map int64_slot ns)"

definition record_element :: "string \<Rightarrow> blpapi_Element_t option list \<Rightarrow> blpapi_Element_t" where
  "record_element name subs =
     Element name BLPAPI_DATATYPE_SEQUENCE True False False complex_definition subs []"

definition element_slot :: "blpapi_Element_t option \<Rightarrow> value_slot" where
  "element_slot got = ValueSlot None None None None None None got"

definition record_array :: "string \<Rightarrow> blpapi_Element_t option list \<Rightarrow> blpapi_Element_t" where
  "record_array name got =
     Element name BLPAPI_DATATYPE_SEQUENCE False True False complex_definition []
       (map element_slot got)"

text \<open>A timestamp of 2024-03-05 12:30:45.250 with 500000000 picoseconds and all parts set,
  and one whose parts indicator is empty while every other field is set.\<close>

definition full_timestamp :: blpapi_HighPrecisionDatetime_t where
  "full_timestamp =
     \<lparr>datetime = \<lparr>parts = 0xFF, hours = 12, minutes = 30, seconds = 45, milliSeconds = 250,
                   month = 3, day = 5, year = 2024, offset = 0\<rparr>,
      picoseconds = 500000000\<rparr>"

definition empty_timestamp :: blpapi_HighPrecisionDatetime_t where
  "empty_timestamp =
     \<lparr>datetime = \<lparr>parts = 0, hours = 12, minutes = 30, seconds = 45, milliSeconds = 250,
                   month = 3, day = 5, year = 2024, offset = 60\<rparr>,
      picoseconds = 500000000\<rparr>"

lemmas example_defs =
  example_env_def broken_env_def example_state_def warm_state_def scalar_definition_def
  complex_definition_def no_value_def bool_element_def int64_slot_def int64_element_def
  string_element_def datetime_element_def choice_tagged_element_def int64_array_def
  record_element_def element_slot_def record_array_def full_timestamp_def empty_timestamp_def

text \<open>
  A well-formed state: every live object sits above the statically allocated objects (the
  last of which, the integer 256, is at address 265) and below the next address to be
  handed out, and somebody holds a reference to it.
\<close>

definition wf_state :: "pystate \<Rightarrow> bool" where
  "wf_state s =
     (265 < next_addr s
      \<and> list_all (\<lambda>(a, rc, v). 265 < a \<and> a < next_addr s \<and> 1 \<le> rc) (heap s))"

text \<open>
  A relation between an earlier and a later state that is reflexive and transitive and
  that every primitive step of a conversion establishes.
\<close>

definition preserved_by_steps :: "(pystate \<Rightarrow> pystate \<Rightarrow> bool) \<Rightarrow> bool" where
  "preserved_by_steps R =
     ((\<forall>s. R s s)
      \<and> (\<forall>s t u. R s t \<longrightarrow> R t u \<longrightarrow> R s u)
      \<and> (\<forall>msg s. R s (PyErr_SetString msg s))
      \<and> (\<forall>a s. R s (Py_XDECREF a s))
      \<and> (\<forall>a s. R s (Py_DECREF a s))
      \<and> (\<forall>env e i s. R s (snd (getScalarValue env e i s)))
      \<and> (\<forall>l i v s. R s (snd (PyList_SetItem l i v s)))
      \<and> (\<forall>d k v s. R s (snd (PyDict_SetItemString d k v s)))
      \<and> (\<forall>ev s. \<not> is_lookup ev \<longrightarrow> \<not> is_helper_call ev \<longrightarrow> R s (log_call ev s))
      \<and> (\<forall>v s. R s (snd (new_object v s)))
      \<and> (\<forall>s. R s (snd (Py_RETURN_NONE s))))"

text \<open>
  Once the helper is resolved, a later state still holds the same three cached objects
  and has logged no further lookup.
\<close>

definition same_resolution :: "pystate \<Rightarrow> pystate \<Rightarrow> bool" where
  "same_resolution s t =
     (convertToPyTime s \<noteq> NULL \<longrightarrow>
        convertToPyTime t = convertToPyTime s \<and> datetimeUtil t = datetimeUtil s
        \<and> blpapiDatetimeModule t = blpapiDatetimeModule s \<and> lookup_events t = lookup_events s)"

text \<open>Null elements of the three shapes: a scalar, an array and a record.\<close>

definition null_scalar :: blpapi_Element_t where
  "null_scalar = Element ''n'' BLPAPI_DATATYPE_INT64 False False True scalar_definition [] []"

definition null_array :: blpapi_Element_t where
  "null_array = Element ''a'' BLPAPI_DATATYPE_INT64 False True True scalar_definition [] []"

definition null_record :: blpapi_Element_t where
  "null_record = Element ''r'' BLPAPI_DATATYPE_SEQUENCE True False True complex_definition [] []"

text \<open>
  An array of two complex values and a record of two sub-elements, for each of which the
  native accessor hands out the first and reports failure on the second.
\<close>

definition failing_array :: blpapi_Element_t where
  "failing_array =
     record_array ''rows'' [Some (record_element ''row'' [Some (int64_element ''x'' 1000)]), None]"

definition failing_record :: blpapi_Element_t where
  "failing_record = record_element ''rec'' [Some (int64_element ''x'' 1000), None]"

section \<open>References taken and given back\<close>

text \<open>
  The objects that the interpreter answers to the three lookups of a resolution attempt
  are objects that a reference can be taken to: each answer is null, or a statically
  allocated object, or a live object to which somebody holds a reference.
\<close>

definition lookups_live :: "pyenv \<Rightarrow> pystate \<Rightarrow> bool" where
  "lookups_live env s =
     (let m = import_result env ''blpapi.datetime'';
          u = attr_result env m ''_DatetimeUtil'';
          f = attr_result env u ''toPyTimeFromInts''
      in holds_object s m
         \<and> (m \<noteq> NULL \<longrightarrow> holds_object s u \<and> (u \<noteq> NULL \<longrightarrow> holds_object s f)))"

text \<open>
  State \<open>t\<close> is what state \<open>s\<close> has become after steps that have taken the references
  \<open>xs\<close> and not given them back, without any access to an address that holds no live
  object: each object of \<open>s\<close> has the count it had plus the number of times it occurs
  in \<open>xs\<close>.
\<close>

definition holding :: "pystate \<Rightarrow> addr list \<Rightarrow> pystate \<Rightarrow> bool" where
  "holding s xs t =
     (wf_state t \<and> next_addr s \<le> next_addr t \<and> violations t = violations s
      \<and> (\<forall>a. a < next_addr s \<longrightarrow> refcnt_of t a = refcnt_of s a + int (count_list xs a))
      \<and> (\<forall>a \<in> set xs. a \<noteq> NULL \<and> holds_object s a))"

section \<open>Reference counting\<close>

lemma small_int_addr_range:
  "small_int_addr (- NSMALLNEGINTS) = 4" "small_int_addr (NSMALLPOSINTS - 1) = 265"
  by (simp_all add: small_int_addr_def NSMALLNEGINTS_def NSMALLPOSINTS_def)

lemma is_static_iff: "is_static a = (1 \<le> a \<and> a \<le> 265)"
  by (auto simp: is_static_def small_int_addr_range Py_None_def Py_False_def Py_True_def)

lemma is_static_singletons [simp]: "is_static Py_None" "is_static Py_False" "is_static Py_True"
  by (simp_all add: is_static_def)

lemma is_static_small_int: "is_small_int n \<Longrightarrow> is_static (small_int_addr n)"
  by (auto simp: is_static_iff is_small_int_def small_int_addr_def NSMALLNEGINTS_def
        NSMALLPOSINTS_def)

lemma small_int_addr_not_singleton:
  "is_small_int n \<Longrightarrow>
   small_int_addr n \<noteq> NULL \<and> small_int_addr n \<noteq> Py_None
   \<and> small_int_addr n \<noteq> Py_False \<and> small_int_addr n \<noteq> Py_True"
  by (simp add: small_int_addr_def NULL_def Py_None_def Py_False_def Py_True_def)

lemma small_int_addr_inj:
  "is_small_int m \<Longrightarrow> is_small_int n \<Longrightarrow> (small_int_addr m = small_int_addr n) = (m = n)"
  by (auto simp: is_small_int_def small_int_addr_def NSMALLNEGINTS_def)

lemma decref_all_single_static:
  "is_static a \<Longrightarrow> a \<noteq> NULL \<Longrightarrow>
   decref_all [a] s = s\<lparr>static_refcnt := (static_refcnt s)(a := static_refcnt s a - 1)\<rparr>"
  by simp

lemma decref_all_single_keep:
  "\<not> is_static a \<Longrightarrow> a \<noteq> NULL \<Longrightarrow> map_of (heap s) a = Some (rc, v) \<Longrightarrow> rc - 1 \<noteq> 0 \<Longrightarrow>
   decref_all [a] s = s\<lparr>heap := AList.update a (rc - 1, v) (heap s)\<rparr>"
  by simp

text \<open>The cases of \<open>decref_all\<close>, one rule each, and the induction that follows them.\<close>

lemma decref_all_NULL [simp]: "decref_all (NULL # as) s = decref_all as s"
  by simp

lemma decref_all_static:
  "is_static a \<Longrightarrow>
   decref_all (a # as) s
     = decref_all as (s\<lparr>static_refcnt := (static_refcnt s)(a := static_refcnt s a - 1)\<rparr>)"
  by (auto simp: is_static_iff NULL_def)

lemma decref_all_dangling:
  "a \<noteq> NULL \<Longrightarrow> \<not> is_static a \<Longrightarrow> map_of (heap s) a = None \<Longrightarrow>
   decref_all (a # as) s = decref_all as (s\<lparr>violations := violations s @ [a]\<rparr>)"
  by simp

lemma decref_all_free:
  "a \<noteq> NULL \<Longrightarrow> \<not> is_static a \<Longrightarrow> map_of (heap s) a = Some (1, v) \<Longrightarrow>
   decref_all (a # as) s = decref_all (items_of v @ as) (s\<lparr>heap := AList.delete a (heap s)\<rparr>)"
  by simp

lemma decref_all_keep:
  "a \<noteq> NULL \<Longrightarrow> \<not> is_static a \<Longrightarrow> map_of (heap s) a = Some (rc, v) \<Longrightarrow> rc \<noteq> 1 \<Longrightarrow>
   decref_all (a # as) s = decref_all as (s\<lparr>heap := AList.update a (rc - 1, v) (heap s)\<rparr>)"
  by simp

lemma decref_all_induct [case_names Nil Null Static Dangling Free Keep]:
  assumes "\<And>s. P [] (s::pystate)"
    and "\<And>as s. P as s \<Longrightarrow> P (NULL # as) s"
    and "\<And>a as s. a \<noteq> NULL \<Longrightarrow> is_static a \<Longrightarrow>
           P as (s\<lparr>static_refcnt := (static_refcnt s)(a := static_refcnt s a - 1)\<rparr>) \<Longrightarrow>
           P (a # as) s"
    and "\<And>a as s. a \<noteq> NULL \<Longrightarrow> \<not> is_static a \<Longrightarrow> map_of (heap s) a = None \<Longrightarrow>
           P as (s\<lparr>violations := violations s @ [a]\<rparr>) \<Longrightarrow> P (a # as) s"
    and "\<And>a as s v. a \<noteq> NULL \<Longrightarrow> \<not> is_static a \<Longrightarrow> map_of (heap s) a = Some (1, v) \<Longrightarrow>
           P (items_of v @ as) (s\<lparr>heap := AList.delete a (heap s)\<rparr>) \<Longrightarrow> P (a # as) s"
    and "\<And>a as s rc v. a \<noteq> NULL \<Longrightarrow> \<not> is_static a \<Longrightarrow> map_of (heap s) a = Some (rc, v) \<Longrightarrow>
           rc \<noteq> 1 \<Longrightarrow>
           P as (s\<lparr>heap := AList.update a (rc - 1, v) (heap s)\<rparr>) \<Longrightarrow> P (a # as) s"
  shows "P as (s::pystate)"
proof (induction as s rule: decref_all.induct)
  case (1 s)
  show ?case by (rule assms(1))
next
  case (2 a as s)
  show ?case
  proof (cases "a = NULL")
    case True
    with 2 assms(2) show ?thesis by simp
  next
    case nn: False
    show ?thesis
    proof (cases "is_static a")
      case True
      with 2 nn assms(3) show ?thesis by simp
    next
      case st: False
      show ?thesis
      proof (cases "map_of (heap s) a")
        case None
        with 2 nn st assms(4) show ?thesis by simp
      next
        case (Some ob)
        obtain rc v where ob: "ob = (rc, v)" by (cases ob)
        show ?thesis
        proof (cases "rc = 1")
          case True
          have "P (items_of v @ as) (s\<lparr>heap := AList.delete a (heap s)\<rparr>)"
            using "2.IH"(4) [OF nn st Some ob [symmetric]] True by simp
          then show ?thesis
            using assms(5) [OF nn st] Some ob True by simp
        next
          case False
          have "P as (s\<lparr>heap := AList.update a (rc - 1, v) (heap s)\<rparr>)"
            using "2.IH"(5) [OF nn st Some ob [symmetric]] False by simp
          then show ?thesis
            using assms(6) [OF nn st _ False] Some ob by simp
        qed
      qed
    qed
  qed
qed

declare decref_all.simps(2) [simp del]

lemma decref_all_absent:
  "map_of (heap (s::pystate)) a = None \<Longrightarrow> map_of (heap (decref_all as s)) a = None"
proof (induction as s rule: decref_all_induct)
  case (Free b as s v)
  then show ?case by (simp add: decref_all_free delete_conv')
next
  case (Keep b as s rc v)
  then have "a \<noteq> b" by auto
  with Keep show ?case by (simp add: decref_all_keep update_conv')
qed (simp_all add: decref_all_static decref_all_dangling)

lemma Py_XINCREF_NULL [simp]: "Py_XINCREF NULL s = s"
  by (simp add: Py_XINCREF_def)

lemma Py_XDECREF_NULL [simp]: "Py_XDECREF NULL s = s"
  by (simp add: Py_XDECREF_def decref_all.simps(2))

lemma static_not_NULL: "is_static a \<Longrightarrow> a \<noteq> NULL"
  by (auto simp: is_static_iff NULL_def)

lemma refcnt_of_Py_XINCREF:
  assumes "holds_object s a" and "a \<noteq> NULL"
  shows "refcnt_of (Py_XINCREF a s) a = refcnt_of s a + 1"
  using assms
  by (auto simp: Py_XINCREF_def Py_INCREF_def refcnt_of_def holds_object_def lookup_def
        update_conv' split: option.splits)

lemma refcnt_of_Py_XDECREF:
  assumes "holds_object s a" and "a \<noteq> NULL"
  shows "refcnt_of (Py_XDECREF a s) a = refcnt_of s a - 1"
  using assms
  by (auto simp: Py_XDECREF_def refcnt_of_def holds_object_def lookup_def
        update_conv' delete_conv' decref_all_absent decref_all.simps(2) split: option.splits)

lemma holds_object_Py_XINCREF:
  "holds_object s a \<Longrightarrow> holds_object (Py_XINCREF a s) a"
  by (auto simp: Py_XINCREF_def Py_INCREF_def holds_object_def lookup_def
        update_conv' split: option.splits)

lemma Py_XDECREF_Py_XINCREF:
  assumes "holds_object s a"
  shows "Py_XDECREF a (Py_XINCREF a s) = s"
proof (cases "a = NULL")
  case True
  then show ?thesis by simp
next
  case False
  show ?thesis
  proof (cases "is_static a")
    case True
    with False show ?thesis
      by (simp add: Py_XDECREF_def Py_XINCREF_def Py_INCREF_def decref_all_static)
  next
    case static: False
    with False assms obtain rc v where live: "map_of (heap s) a = Some (rc, v)" and rc: "1 \<le> rc"
      by (auto simp: holds_object_def lookup_def split: option.splits)
    have "heap (Py_XINCREF a s) = AList.update a (rc + 1, v) (heap s)"
      using False static live by (simp add: Py_XINCREF_def Py_INCREF_def lookup_def)
    moreover have "AList.update a (rc, v) (heap s) = heap s"
      using live by (rule update_triv)
    ultimately show ?thesis
      using False static live rc
      by (simp add: Py_XDECREF_def Py_XINCREF_def Py_INCREF_def lookup_def update_conv'
            decref_all.simps(2))
  qed
qed

section \<open>The lifetime bridge: copy, destroy, install, the diagnostic check\<close>

lemma managerFunc_COPY:
  "managerFunc mptr sptr BLPAPI_MANAGEDPTR_COPY b =
     (0, b\<lparr>handles := (handles b)(mptr := (handles b mptr)
               \<lparr>pointer := pointer (handles b sptr), manager := manager (handles b sptr)\<rparr>),
           py := Py_XINCREF (pointer (handles b sptr)) (py b)\<rparr>)"
  by (simp add: managerFunc_def PyGILState_Ensure_def PyGILState_Release_def Let_def)

lemma managerFunc_DESTROY:
  "managerFunc mptr sptr BLPAPI_MANAGEDPTR_DESTROY b =
     (0, b\<lparr>py := Py_XDECREF (pointer (handles b mptr)) (py b)\<rparr>)"
  by (simp add: managerFunc_def PyGILState_Ensure_def PyGILState_Release_def Let_def
        BLPAPI_MANAGEDPTR_COPY_def BLPAPI_MANAGEDPTR_DESTROY_def)

lemma managerFunc_other:
  "operation \<noteq> BLPAPI_MANAGEDPTR_COPY \<Longrightarrow> operation \<noteq> BLPAPI_MANAGEDPTR_DESTROY \<Longrightarrow>
   managerFunc mptr sptr operation b = (0, b)"
  by (simp add: managerFunc_def PyGILState_Ensure_def PyGILState_Release_def Let_def)

text \<open>
  C8. The copy operation makes the destination carry the source's object pointer and
  manager function and adds one reference to the object; the destroy operation removes one
  reference, and does nothing at all on a handle whose pointer is null. Hence copying a
  handle to \<open>d1\<close>, copying it (or the copy) to \<open>d2\<close>, and destroying \<open>d1\<close> and \<open>d2\<close>
  leaves the object's reference count, and the whole Python state, as it was.
\<close>

theorem managerFunc_copy_destroy_balance:
  assumes held: "holds_object (py b) (pointer (handles b sptr))"
    and src2: "src2 = sptr \<or> src2 = d1"
  shows
    "(let p = pointer (handles b sptr);
          b' = snd (managerFunc mptr sptr BLPAPI_MANAGEDPTR_COPY b)
      in pointer (handles b' mptr) = p
         \<and> manager (handles b' mptr) = manager (handles b sptr)
         \<and> refcnt_of (py b') p = (if p = NULL then refcnt_of (py b) p else refcnt_of (py b) p + 1))
     \<and> (let p = pointer (handles b sptr);
             b' = snd (managerFunc sptr other BLPAPI_MANAGEDPTR_DESTROY b)
         in (if p = NULL then b' = b else refcnt_of (py b') p = refcnt_of (py b) p - 1))
     \<and> (let p = pointer (handles b sptr);
             b1 = snd (managerFunc d1 sptr BLPAPI_MANAGEDPTR_COPY b);
             b2 = snd (managerFunc d2 src2 BLPAPI_MANAGEDPTR_COPY b1);
             b3 = snd (managerFunc d1 x BLPAPI_MANAGEDPTR_DESTROY b2);
             b4 = snd (managerFunc d2 y BLPAPI_MANAGEDPTR_DESTROY b3)
         in refcnt_of (py b4) p = refcnt_of (py b) p \<and> py b4 = py b)"
proof -
  let ?p = "pointer (handles b sptr)"
  have copy: "refcnt_of (Py_XINCREF ?p (py b)) ?p
      = (if ?p = NULL then refcnt_of (py b) ?p else refcnt_of (py b) ?p + 1)"
    using held by (simp add: refcnt_of_Py_XINCREF)
  have destroy: "if ?p = NULL then b\<lparr>py := Py_XDECREF ?p (py b)\<rparr> = b
      else refcnt_of (Py_XDECREF ?p (py b)) ?p = refcnt_of (py b) ?p - 1"
    using held by (simp add: refcnt_of_Py_XDECREF)
  have held1: "holds_object (Py_XINCREF ?p (py b)) ?p"
    using held by (rule holds_object_Py_XINCREF)
  have undo2: "Py_XDECREF ?p (Py_XINCREF ?p (Py_XINCREF ?p (py b))) = Py_XINCREF ?p (py b)"
    using held1 by (rule Py_XDECREF_Py_XINCREF)
  have undo1: "Py_XDECREF ?p (Py_XINCREF ?p (py b)) = py b"
    using held by (rule Py_XDECREF_Py_XINCREF)
  have seq: "py (snd (managerFunc d2 y BLPAPI_MANAGEDPTR_DESTROY
               (snd (managerFunc d1 x BLPAPI_MANAGEDPTR_DESTROY
                 (snd (managerFunc d2 src2 BLPAPI_MANAGEDPTR_COPY
                   (snd (managerFunc d1 sptr BLPAPI_MANAGEDPTR_COPY b)))))))) = py b"
    using src2 by (auto simp: managerFunc_COPY managerFunc_DESTROY undo1 undo2)
  show ?thesis
    unfolding Let_def
    using copy destroy seq by (simp add: managerFunc_COPY managerFunc_DESTROY)
qed

theorem managerFunc_copy_destroy_balance_witness:
  "holds_object (py example_bridge) (pointer (handles example_bridge 100))
   \<and> refcnt_of (py example_bridge) 266 = 2
   \<and> refcnt_of (py (snd (managerFunc 200 100 BLPAPI_MANAGEDPTR_COPY example_bridge))) 266 = 3
   \<and> refcnt_of (py (snd (managerFunc 100 0 BLPAPI_MANAGEDPTR_DESTROY example_bridge))) 266 = 1
   \<and> py (snd (managerFunc 300 0 BLPAPI_MANAGEDPTR_DESTROY
          (snd (managerFunc 200 0 BLPAPI_MANAGEDPTR_DESTROY
            (snd (managerFunc 300 200 BLPAPI_MANAGEDPTR_COPY
              (snd (managerFunc 200 100 BLPAPI_MANAGEDPTR_COPY example_bridge)))))))) = py example_bridge"
proof -
  have held: "holds_object (py example_bridge) (pointer (handles example_bridge 100))"
    by (simp add: holds_object_def example_bridge_def example_py_def lookup_def NULL_def is_static_iff)
  have p: "pointer (handles example_bridge 100) = 266"
    by (simp add: example_bridge_def)
  have nn: "(266::nat) \<noteq> NULL"
    by (simp add: NULL_def)
  have rc: "refcnt_of (py example_bridge) 266 = 2"
    by (simp add: refcnt_of_def example_bridge_def example_py_def lookup_def is_static_iff)
  show ?thesis
    using held rc nn
      managerFunc_copy_destroy_balance [OF held, of 200 200 200 0 300 0 0, unfolded Let_def p]
    by simp
qed

text \<open>
  C9. The diagnostic check answers 1 exactly for a handle whose manager function is
  \<open>managerFunc\<close> itself, which is what the install operation \<open>setmptr\<close> stores, and 0
  exactly for a handle that carries another function's address; install changes nothing
  but the manager field of the handle it is given.
\<close>

theorem is_known_obj_setmptr:
  "is_known_obj p (setmptr p b) = 1
   \<and> (is_known_obj p b = 1) = (manager (handles b p) = Addr_managerFunc)
   \<and> (is_known_obj p b = 0) = (\<exists>n. manager (handles b p) = Addr_other n)
   \<and> is_known_obj q (setmptr p b) = (if q = p then 1 else is_known_obj q b)
   \<and> handles (setmptr p b) = (handles b)(p := (handles b p)\<lparr>manager := Addr_managerFunc\<rparr>)
   \<and> py (setmptr p b) = py b"
  by (cases "manager (handles b p)") (simp_all add: is_known_obj_def setmptr_def)

text \<open>
  C10. The callback answers status 0 for every operation code, and for every code other
  than copy and destroy it leaves the whole state as it was: every field of every handle
  and every object's reference count.
\<close>

theorem managerFunc_other_operation:
  "fst (managerFunc mptr sptr operation b) = 0
   \<and> (operation \<noteq> BLPAPI_MANAGEDPTR_COPY \<and> operation \<noteq> BLPAPI_MANAGEDPTR_DESTROY
        \<longrightarrow> snd (managerFunc mptr sptr operation b) = b)"
  by (simp add: managerFunc_other) (simp add: managerFunc_def Let_def)

theorem managerFunc_other_operation_witness:
  "fst (managerFunc 200 100 7 example_bridge) = 0
   \<and> snd (managerFunc 200 100 7 example_bridge) = example_bridge
   \<and> fst (managerFunc 200 100 BLPAPI_MANAGEDPTR_COPY example_bridge) = 0
   \<and> fst (managerFunc 200 100 BLPAPI_MANAGEDPTR_DESTROY example_bridge) = 0"
  using managerFunc_other_operation [of 200 100 7 example_bridge]
    managerFunc_other_operation [of 200 100 BLPAPI_MANAGEDPTR_COPY example_bridge]
    managerFunc_other_operation [of 200 100 BLPAPI_MANAGEDPTR_DESTROY example_bridge]
  by (simp add: BLPAPI_MANAGEDPTR_COPY_def BLPAPI_MANAGEDPTR_DESTROY_def)

section \<open>What the primitives leave alone\<close>

lemma new_object_ok:
  "alloc_ok s \<Longrightarrow>
   new_object v s =
     (next_addr s,
      s\<lparr>heap := AList.update (next_addr s) (1, v) (heap s),
        next_addr := Suc (next_addr s),
        alloc_plan := tl (alloc_plan s)\<rparr>)"
  by (auto simp: new_object_def alloc_ok_def split: list.splits bool.splits)

lemma new_object_fails:
  "\<not> alloc_ok s \<Longrightarrow>
   new_object v s = (NULL, s\<lparr>alloc_plan := tl (alloc_plan s), err := Some MemoryError\<rparr>)"
  by (auto simp: new_object_def alloc_ok_def split: list.splits bool.splits)


lemma alloc_ok_log_call [simp]: "alloc_ok (log_call ev s) = alloc_ok s"
  by (simp add: alloc_ok_def log_call_def)

lemma fields_log_call [simp]:
  "heap (log_call ev s) = heap s"
  "next_addr (log_call ev s) = next_addr s"
  "err (log_call ev s) = err s"
  "static_refcnt (log_call ev s) = static_refcnt s"
  "violations (log_call ev s) = violations s"
  "trace (log_call ev s) = trace s @ [ev]"
  "alloc_plan (log_call ev s) = alloc_plan s"
  "blpapiDatetimeModule (log_call ev s) = blpapiDatetimeModule s"
  "datetimeUtil (log_call ev s) = datetimeUtil s"
  "convertToPyTime (log_call ev s) = convertToPyTime s"
  by (simp_all add: log_call_def)

lemma lookup_log_call [simp]: "lookup (log_call ev s) a = lookup s a"
  by (simp add: lookup_def)

lemma refcnt_of_log_call [simp]: "refcnt_of (log_call ev s) a = refcnt_of s a"
  by (simp add: refcnt_of_def)

lemma fields_PyErr_SetString [simp]:
  "heap (PyErr_SetString msg s) = heap s"
  "next_addr (PyErr_SetString msg s) = next_addr s"
  "err (PyErr_SetString msg s) = Some (Exception msg)"
  "static_refcnt (PyErr_SetString msg s) = static_refcnt s"
  "violations (PyErr_SetString msg s) = violations s"
  "trace (PyErr_SetString msg s) = trace s"
  "alloc_plan (PyErr_SetString msg s) = alloc_plan s"
  "blpapiDatetimeModule (PyErr_SetString msg s) = blpapiDatetimeModule s"
  "datetimeUtil (PyErr_SetString msg s) = datetimeUtil s"
  "convertToPyTime (PyErr_SetString msg s) = convertToPyTime s"
  by (simp_all add: PyErr_SetString_def)

lemma decref_all_fields [simp]:
  "next_addr (decref_all as s) = next_addr s"
  "alloc_plan (decref_all as s) = alloc_plan s"
  "err (decref_all as s) = err s"
  "trace (decref_all as s) = trace s"
  "blpapiDatetimeModule (decref_all as s) = blpapiDatetimeModule s"
  "datetimeUtil (decref_all as s) = datetimeUtil s"
  "convertToPyTime (decref_all as s) = convertToPyTime s"
  by (induction as s rule: decref_all_induct;
      simp add: decref_all_static decref_all_dangling decref_all_free decref_all_keep)+

lemma Py_XDECREF_fields [simp]:
  "next_addr (Py_XDECREF a s) = next_addr s"
  "alloc_plan (Py_XDECREF a s) = alloc_plan s"
  "err (Py_XDECREF a s) = err s"
  "trace (Py_XDECREF a s) = trace s"
  "blpapiDatetimeModule (Py_XDECREF a s) = blpapiDatetimeModule s"
  "datetimeUtil (Py_XDECREF a s) = datetimeUtil s"
  "convertToPyTime (Py_XDECREF a s) = convertToPyTime s"
  by (simp_all add: Py_XDECREF_def)

lemma Py_DECREF_fields [simp]:
  "next_addr (Py_DECREF a s) = next_addr s"
  "alloc_plan (Py_DECREF a s) = alloc_plan s"
  "err (Py_DECREF a s) = err s"
  "trace (Py_DECREF a s) = trace s"
  "blpapiDatetimeModule (Py_DECREF a s) = blpapiDatetimeModule s"
  "datetimeUtil (Py_DECREF a s) = datetimeUtil s"
  "convertToPyTime (Py_DECREF a s) = convertToPyTime s"
  by (simp_all add: Py_DECREF_def violation_def)

lemma Py_INCREF_fields [simp]:
  "next_addr (Py_INCREF a s) = next_addr s"
  "alloc_plan (Py_INCREF a s) = alloc_plan s"
  "err (Py_INCREF a s) = err s"
  "trace (Py_INCREF a s) = trace s"
  "blpapiDatetimeModule (Py_INCREF a s) = blpapiDatetimeModule s"
  "datetimeUtil (Py_INCREF a s) = datetimeUtil s"
  "convertToPyTime (Py_INCREF a s) = convertToPyTime s"
  by (simp_all add: Py_INCREF_def violation_def split: option.splits)

lemma new_object_fields [simp]:
  "trace (snd (new_object v s)) = trace s"
  "static_refcnt (snd (new_object v s)) = static_refcnt s"
  "violations (snd (new_object v s)) = violations s"
  "blpapiDatetimeModule (snd (new_object v s)) = blpapiDatetimeModule s"
  "datetimeUtil (snd (new_object v s)) = datetimeUtil s"
  "convertToPyTime (snd (new_object v s)) = convertToPyTime s"
  "alloc_plan (snd (new_object v s)) = tl (alloc_plan s)"
  by (simp_all add: new_object_def split: list.splits bool.splits)

lemma Py_RETURN_NONE_fields [simp]:
  "fst (Py_RETURN_NONE s) = Py_None"
  "heap (snd (Py_RETURN_NONE s)) = heap s"
  "next_addr (snd (Py_RETURN_NONE s)) = next_addr s"
  "alloc_plan (snd (Py_RETURN_NONE s)) = alloc_plan s"
  "err (snd (Py_RETURN_NONE s)) = err s"
  "violations (snd (Py_RETURN_NONE s)) = violations s"
  "trace (snd (Py_RETURN_NONE s)) = trace s"
  "blpapiDatetimeModule (snd (Py_RETURN_NONE s)) = blpapiDatetimeModule s"
  "datetimeUtil (snd (Py_RETURN_NONE s)) = datetimeUtil s"
  "convertToPyTime (snd (Py_RETURN_NONE s)) = convertToPyTime s"
  by (simp_all add: Py_RETURN_NONE_def Py_INCREF_def is_static_def)

lemma PyBool_FromLong_fields [simp]:
  "heap (snd (PyBool_FromLong b s)) = heap s"
  "next_addr (snd (PyBool_FromLong b s)) = next_addr s"
  "alloc_plan (snd (PyBool_FromLong b s)) = alloc_plan s"
  "err (snd (PyBool_FromLong b s)) = err s"
  "violations (snd (PyBool_FromLong b s)) = violations s"
  "trace (snd (PyBool_FromLong b s)) = trace s"
  "blpapiDatetimeModule (snd (PyBool_FromLong b s)) = blpapiDatetimeModule s"
  "datetimeUtil (snd (PyBool_FromLong b s)) = datetimeUtil s"
  "convertToPyTime (snd (PyBool_FromLong b s)) = convertToPyTime s"
  by (simp_all add: PyBool_FromLong_def Py_INCREF_def is_static_def)

lemma PyImport_ImportModule_fields [simp]:
  "fst (PyImport_ImportModule env name s) = import_result env name"
  "trace (snd (PyImport_ImportModule env name s)) = trace s @ [Call_ImportModule name]"
  "next_addr (snd (PyImport_ImportModule env name s)) = next_addr s"
  "alloc_plan (snd (PyImport_ImportModule env name s)) = alloc_plan s"
  "blpapiDatetimeModule (snd (PyImport_ImportModule env name s)) = blpapiDatetimeModule s"
  "datetimeUtil (snd (PyImport_ImportModule env name s)) = datetimeUtil s"
  "convertToPyTime (snd (PyImport_ImportModule env name s)) = convertToPyTime s"
  by (simp_all add: PyImport_ImportModule_def Let_def NULL_def)

lemma PyObject_GetAttr_fields [simp]:
  "next_addr (snd (PyObject_GetAttr env obj name s)) = next_addr s"
  "alloc_plan (snd (PyObject_GetAttr env obj name s)) = alloc_plan s"
  "blpapiDatetimeModule (snd (PyObject_GetAttr env obj name s)) = blpapiDatetimeModule s"
  "datetimeUtil (snd (PyObject_GetAttr env obj name s)) = datetimeUtil s"
  "convertToPyTime (snd (PyObject_GetAttr env obj name s)) = convertToPyTime s"
  by (simp_all add: PyObject_GetAttr_def Let_def violation_def
        split: option.splits pyval.splits prod.splits)

lemma PyObject_GetAttr_trace:
  "trace (snd (PyObject_GetAttr env obj name s)) =
     (case lookup s name of
        Some (rc, PyUnicode attr) \<Rightarrow> trace s @ [Call_GetAttr attr]
      | _ \<Rightarrow> trace s)"
  by (simp add: PyObject_GetAttr_def Let_def violation_def
        split: option.splits pyval.splits prod.splits)

lemma PyObject_CallFunction_fields [simp]:
  "blpapiDatetimeModule (snd (PyObject_CallFunction env f args s)) = blpapiDatetimeModule s"
  "datetimeUtil (snd (PyObject_CallFunction env f args s)) = datetimeUtil s"
  "convertToPyTime (snd (PyObject_CallFunction env f args s)) = convertToPyTime s"
  by (simp_all add: PyObject_CallFunction_def Let_def violation_def split: option.splits)

lemma lookup_events_append [simp]:
  "lookup_events (s\<lparr>trace := t\<rparr>) = filter is_lookup t"
  by (simp add: lookup_events_def)

lemma PyObject_CallFunction_lookup_events [simp]:
  "lookup_events (snd (PyObject_CallFunction env f args s)) = lookup_events s"
  by (simp add: PyObject_CallFunction_def Let_def violation_def lookup_events_def
        split: option.splits)

lemma utf8_valid_names [simp]:
  "utf8_valid ''_DatetimeUtil''" "utf8_valid ''toPyTimeFromInts''"
  by code_simp+

lemma PyUnicode_FromString_valid:
  "utf8_valid v \<Longrightarrow> PyUnicode_FromString v s = new_object (PyUnicode v) s"
  by (simp add: PyUnicode_FromString_def new_object_def split: list.splits bool.splits)

lemma PyUnicode_FromString_invalid:
  "\<not> utf8_valid v \<Longrightarrow>
   PyUnicode_FromString v s =
     (NULL, s\<lparr>alloc_plan := tl (alloc_plan s),
              err := Some (if alloc_ok s then UnicodeDecodeError else MemoryError)\<rparr>)"
  by (simp add: PyUnicode_FromString_def alloc_ok_def split: list.splits bool.splits)

lemma PyUnicode_FromString_fields [simp]:
  "trace (snd (PyUnicode_FromString v s)) = trace s"
  "static_refcnt (snd (PyUnicode_FromString v s)) = static_refcnt s"
  "violations (snd (PyUnicode_FromString v s)) = violations s"
  "blpapiDatetimeModule (snd (PyUnicode_FromString v s)) = blpapiDatetimeModule s"
  "datetimeUtil (snd (PyUnicode_FromString v s)) = datetimeUtil s"
  "convertToPyTime (snd (PyUnicode_FromString v s)) = convertToPyTime s"
  "alloc_plan (snd (PyUnicode_FromString v s)) = tl (alloc_plan s)"
  by (cases "utf8_valid v";
      simp add: PyUnicode_FromString_valid PyUnicode_FromString_invalid)+

lemma PyLong_FromLongLong_fields [simp]:
  "trace (snd (PyLong_FromLongLong v s)) = trace s"
  "violations (snd (PyLong_FromLongLong v s)) = violations s"
  "blpapiDatetimeModule (snd (PyLong_FromLongLong v s)) = blpapiDatetimeModule s"
  "datetimeUtil (snd (PyLong_FromLongLong v s)) = datetimeUtil s"
  "convertToPyTime (snd (PyLong_FromLongLong v s)) = convertToPyTime s"
  by (simp_all add: PyLong_FromLongLong_def Py_INCREF_def is_static_small_int)

lemma PyLong_FromLongLong_small:
  "is_small_int (sint v) \<Longrightarrow>
   PyLong_FromLongLong v s =
     (small_int_addr (sint v),
      s\<lparr>static_refcnt := (static_refcnt s)
           (small_int_addr (sint v) := static_refcnt s (small_int_addr (sint v)) + 1)\<rparr>)"
  by (simp add: PyLong_FromLongLong_def Py_INCREF_def is_static_small_int)

section \<open>The scalar converter: dispatch on the datatype tag\<close>

lemma getValueAs_in_range:
  "i < blpapi_Element_numValues e \<Longrightarrow> getValueAs acc e i = acc (valueSlots e ! i)"
  by (simp add: getValueAs_def blpapi_Element_numValues_def)

lemma getValueAs_out_of_range:
  "\<not> i < blpapi_Element_numValues e \<Longrightarrow> getValueAs acc e i = None"
  by (simp add: getValueAs_def blpapi_Element_numValues_def)

lemma PyBool_FromLong_result:
  "fst (PyBool_FromLong b s) = (if b \<noteq> 0 then Py_True else Py_False)
   \<and> refcnt_of (snd (PyBool_FromLong b s)) (fst (PyBool_FromLong b s))
       = refcnt_of s (fst (PyBool_FromLong b s)) + 1
   \<and> err (snd (PyBool_FromLong b s)) = err s
   \<and> trace (snd (PyBool_FromLong b s)) = trace s
   \<and> heap (snd (PyBool_FromLong b s)) = heap s"
  by (simp add: PyBool_FromLong_def Py_INCREF_def refcnt_of_def is_static_def)








lemma example_accessors:
  "blpapi_Element_getValueAsBool (bool_element name b) 0 = Some b"
  "blpapi_Element_getValueAsInt64 (int64_element name n) 0 = Some n"
  "blpapi_Element_getValueAsString (string_element name v) 0 = Some v"
  "blpapi_Element_getValueAsHighPrecisionDatetime (datetime_element name hp) 0 = Some hp"
  by (simp_all add: blpapi_Element_getValueAsBool_def blpapi_Element_getValueAsInt64_def
        blpapi_Element_getValueAsString_def blpapi_Element_getValueAsHighPrecisionDatetime_def
        getValueAs_def bool_element_def int64_element_def int64_slot_def string_element_def
        datetime_element_def)


lemma example_state_fields:
  "alloc_ok example_state" "next_addr example_state = 269" "err example_state = None"
  "trace example_state = []" "convertToPyTime example_state = NULL"
  "alloc_ok warm_state" "next_addr warm_state = 269" "err warm_state = None"
  "trace warm_state = []" "convertToPyTime warm_state = 268"
  "lookup warm_state 268 = Some (1, PyOpaque ''function toPyTimeFromInts'')"
  by (simp_all add: example_state_def warm_state_def alloc_ok_def lookup_def)

section \<open>The date/time adapter\<close>

lemma sint_subsecond_arg:
  "sint (subsecond_arg hp)
     = uint (milliSeconds (datetime hp)) * 1000 + uint (picoseconds hp) div 1000000"
proof -
  let ?ms = "milliSeconds (datetime hp)" and ?ps = "picoseconds hp"
  let ?x = "uint ?ms * 1000 + uint ?ps div 1000000"
  have ms: "uint ?ms < 65536" using uint_bounded [of ?ms] by simp
  have ps: "uint ?ps < 4294967296" using uint_bounded [of ?ps] by simp
  have ms0: "0 \<le> uint ?ms" and ps0: "0 \<le> uint ?ps" by simp_all
  have q: "0 \<le> uint ?ps div 1000000" "uint ?ps div 1000000 < 4295"
    using ps by (simp_all add: pos_imp_zdiv_nonneg_iff)
  have x: "0 \<le> ?x" "?x < 2147483648"
    using ms ms0 q by linarith+
  have a: "uint (ucast ?ms :: 32 word) = uint ?ms"
    by (simp add: uint_up_ucast is_up)
  have b: "uint (?ps div 1000000) = uint ?ps div 1000000"
    by (simp add: uint_div)
  have "uint (subsecond_arg hp) = ?x mod 4294967296"
    unfolding subsecond_arg_def by (simp add: uint_word_ariths a b mod_simps)
  also have "\<dots> = ?x"
    using x by simp
  finally have c: "uint (subsecond_arg hp) = ?x" .
  have "sint (subsecond_arg hp) = signed_take_bit 31 ?x"
    by (simp add: sint_uint c)
  also have "\<dots> = ?x"
    using x by (intro signed_take_bit_int_eq_self) simp_all
  finally show ?thesis .
qed

lemma getScalarValue_datetime_resolved:
  assumes "(if convertToPyTime s = NULL then init_convertToPyTime env s else (True, s)) = (True, s1)"
  shows "getScalarValue_datetime env e i s =
     (case blpapi_Element_getValueAsHighPrecisionDatetime e i of
        None \<Rightarrow> (NULL, PyErr_SetString ''Internal error getting datetime''
                         (log_call (Call_getValueAsHighPrecisionDatetime i) s1))
      | Some hp \<Rightarrow>
          if parts (datetime hp) = 0
          then Py_RETURN_NONE (log_call (Call_getValueAsHighPrecisionDatetime i) s1)
          else PyObject_CallFunction env (convertToPyTime s1) (toPyTimeFromInts_args hp)
                 (log_call (Call_getValueAsHighPrecisionDatetime i) s1))"
  using assms by (simp add: getScalarValue_datetime_def Let_def split: option.splits)

lemma PyObject_CallFunction_trace:
  "lookup s callable \<noteq> None \<Longrightarrow>
   trace (snd (PyObject_CallFunction env callable args s)) = trace s @ [Call_toPyTimeFromInts args]"
  by (auto simp: PyObject_CallFunction_def Let_def new_object_def
        split: option.splits list.splits bool.splits)

text \<open>
  C4. Once the helper is resolved and the timestamp has been read: if the parts indicator
  is zero the conversion answers \<open>None\<close>, whatever the other fields hold, and the helper
  is not called (the only call logged is the read of the timestamp); otherwise the helper
  is called, once, with nine integers: parts, offset, year, month, day, hours, minutes,
  seconds, and \<open>milliSeconds * 1000 + picoseconds div 1000000\<close> in exact integer
  arithmetic.
\<close>

theorem getScalarValue_datetime_parts:
  assumes resolved:
      "(if convertToPyTime s = NULL then init_convertToPyTime env s else (True, s)) = (True, s1)"
    and read: "blpapi_Element_getValueAsHighPrecisionDatetime e i = Some hp"
    and callable: "lookup s1 (convertToPyTime s1) \<noteq> None"
  shows
    "(let r = getScalarValue_datetime env e i s; d = datetime hp in
      if parts d = 0
      then r = Py_RETURN_NONE (log_call (Call_getValueAsHighPrecisionDatetime i) s1)
           \<and> fst r = Py_None
           \<and> trace (snd r) = trace s1 @ [Call_getValueAsHighPrecisionDatetime i]
      else trace (snd r) =
             trace s1 @
               [Call_getValueAsHighPrecisionDatetime i,
                Call_toPyTimeFromInts
                  [uint (parts d), sint (offset d), uint (year d), uint (month d), uint (day d),
                   uint (hours d), uint (minutes d), uint (seconds d),
                   uint (milliSeconds d) * 1000 + uint (picoseconds hp) div 1000000]])"
proof (cases "parts (datetime hp) = 0")
  case True
  then show ?thesis
    using read
    by (simp add: getScalarValue_datetime_resolved [OF resolved] Let_def
          Py_RETURN_NONE_def Py_INCREF_def is_static_def)
next
  case False
  have "trace (snd (getScalarValue_datetime env e i s))
      = trace s1 @ [Call_getValueAsHighPrecisionDatetime i,
                    Call_toPyTimeFromInts (toPyTimeFromInts_args hp)]"
    using read False callable
    by (simp add: getScalarValue_datetime_resolved [OF resolved] PyObject_CallFunction_trace)
  then show ?thesis
    using False by (simp add: Let_def toPyTimeFromInts_args_def sint_subsecond_arg)
qed

theorem getScalarValue_datetime_parts_witness:
  "fst (getScalarValue_datetime example_env (datetime_element ''t'' empty_timestamp) 0 warm_state)
     = Py_None
   \<and> trace (snd (getScalarValue_datetime example_env (datetime_element ''t'' empty_timestamp) 0
                  warm_state))
       = [Call_getValueAsHighPrecisionDatetime 0]
   \<and> trace (snd (getScalarValue_datetime example_env (datetime_element ''t'' full_timestamp) 0
                  warm_state))
       = [Call_getValueAsHighPrecisionDatetime 0,
          Call_toPyTimeFromInts [255, 0, 2024, 3, 5, 12, 30, 45, 250500]]"
proof -
  have resolved: "(if convertToPyTime warm_state = NULL
        then init_convertToPyTime example_env warm_state else (True, warm_state))
      = (True, warm_state)"
    by (simp add: example_state_fields NULL_def)
  have callable: "lookup warm_state (convertToPyTime warm_state) \<noteq> None"
    by (simp add: example_state_fields)
  show ?thesis
    using
      getScalarValue_datetime_parts [OF resolved example_accessors(4) callable,
        of "''t''" empty_timestamp]
      getScalarValue_datetime_parts [OF resolved example_accessors(4) callable,
        of "''t''" full_timestamp]
    by (clarsimp simp add: Let_def example_state_fields empty_timestamp_def full_timestamp_def
          Py_RETURN_NONE_def Py_INCREF_def is_static_def)
qed

section \<open>The one-time resolution of the date/time helper\<close>

lemma wf_state_lookup:
  "wf_state s \<Longrightarrow> lookup s a = Some (rc, v) \<Longrightarrow> 265 < a \<and> a < next_addr s \<and> 1 \<le> rc"
  by (auto simp: wf_state_def lookup_def list_all_iff dest!: map_of_SomeD)

lemma wf_state_NULL: "wf_state s \<Longrightarrow> lookup s NULL = None"
  by (cases "lookup s NULL") (auto dest: wf_state_lookup simp: NULL_def)

text \<open>The resolution, step by step, with the intermediate states named.\<close>

lemma init_convertToPyTime_steps:
  assumes "m = import_result env ''blpapi.datetime''"
    and "s2 = (snd (PyImport_ImportModule env ''blpapi.datetime'' s))\<lparr>blpapiDatetimeModule := m\<rparr>"
    and "r1 = PyUnicode_FromString ''_DatetimeUtil'' s2"
    and "r2 = PyObject_GetAttr env m (fst r1) (snd r1)"
    and "s5 = (snd r2)\<lparr>datetimeUtil := fst r2\<rparr>"
    and "r3 = PyUnicode_FromString ''toPyTimeFromInts'' s5"
    and "r4 = PyObject_GetAttr env (fst r2) (fst r3) (snd r3)"
    and "s8 = (snd r4)\<lparr>convertToPyTime := fst r4\<rparr>"
  shows "init_convertToPyTime env s =
     (if m = NULL
      then (False, PyErr_SetString ''Internal error getting blpapi.datetime'' s2)
      else if fst r2 = NULL
      then (False, PyErr_SetString ''Internal error getting _DatetimeUtil'' (Py_DECREF m s5))
      else if fst r4 = NULL
      then (False, PyErr_SetString
                     (''Internal error getting '' @ [CHR 0x27] @ ''toPyTimeFromInts'' @ [CHR 0x27])
                     (Py_DECREF (fst r2) (Py_DECREF m s8)))
      else (True, s8))"
  unfolding assms
  by (simp add: init_convertToPyTime_def Let_def split_beta)

lemma PyObject_GetAttr_new_name:
  assumes "alloc_ok s" and "utf8_valid name"
  shows "PyObject_GetAttr env obj (fst (PyUnicode_FromString name s)) (snd (PyUnicode_FromString name s))
     = (let s1 = log_call (Call_GetAttr name) (snd (PyUnicode_FromString name s));
            r = attr_result env obj name
        in if r = NULL then (NULL, s1\<lparr>err := Some AttributeError\<rparr>) else (r, Py_INCREF r s1))"
  using assms
  by (simp add: PyObject_GetAttr_def PyUnicode_FromString_valid new_object_ok lookup_def
        update_conv')

lemma PyObject_GetAttr_no_name:
  assumes "\<not> alloc_ok s" and "lookup s NULL = None"
  shows "fst (PyObject_GetAttr env obj (fst (PyUnicode_FromString name s))
               (snd (PyUnicode_FromString name s))) = NULL"
  using assms
  by (cases "utf8_valid name")
     (simp_all add: PyObject_GetAttr_def PyUnicode_FromString_valid PyUnicode_FromString_invalid
        new_object_fails lookup_def)

lemma PyObject_GetAttr_result:
  assumes "lookup s NULL = None" and "utf8_valid name"
  shows "fst (PyObject_GetAttr env obj (fst (PyUnicode_FromString name s))
               (snd (PyUnicode_FromString name s)))
         = (if alloc_ok s then attr_result env obj name else NULL)"
  using assms PyObject_GetAttr_new_name [of s name env obj]
    PyObject_GetAttr_no_name [of s env obj name]
  by (auto simp: Let_def)

lemma lookup_Py_INCREF_None:
  "lookup s a = None \<Longrightarrow> lookup (Py_INCREF b s) a = None"
  by (auto simp: Py_INCREF_def lookup_def violation_def update_conv' split: option.splits)

lemma lookup_PyImport_None:
  "lookup s a = None \<Longrightarrow> lookup (snd (PyImport_ImportModule env name s)) a = None"
  by (simp add: PyImport_ImportModule_def Let_def lookup_Py_INCREF_None) (simp add: lookup_def)

lemma lookup_new_object_None:
  "lookup s a = None \<Longrightarrow> a \<noteq> next_addr s \<Longrightarrow> lookup (snd (new_object v s)) a = None"
  by (cases "alloc_ok s") (simp_all add: new_object_ok new_object_fails lookup_def update_conv')

lemma lookup_PyObject_GetAttr_None:
  "lookup s a = None \<Longrightarrow> lookup (snd (PyObject_GetAttr env obj name s)) a = None"
  by (auto simp: PyObject_GetAttr_def Let_def violation_def lookup_Py_INCREF_None
        split: option.splits pyval.splits)
     (simp_all add: lookup_def)

lemma lookup_cache_update [simp]:
  "lookup (s\<lparr>blpapiDatetimeModule := x\<rparr>) a = lookup s a"
  "lookup (s\<lparr>datetimeUtil := x\<rparr>) a = lookup s a"
  "lookup (s\<lparr>convertToPyTime := x\<rparr>) a = lookup s a"
  by (simp_all add: lookup_def)

lemma alloc_ok_take:
  "False \<notin> set (take (Suc n) (alloc_plan s)) \<Longrightarrow> alloc_ok s"
  by (auto simp: alloc_ok_def split: list.splits bool.splits)

lemma alloc_plan_take_tl:
  "False \<notin> set (take (Suc n) p) \<Longrightarrow> False \<notin> set (take n (tl p))"
  by (cases p) auto

text \<open>The outcome of a resolution attempt from a state that has resolved nothing.\<close>

lemma init_convertToPyTime_outcome:
  assumes cold: "convertToPyTime s = NULL"
  shows "fst (init_convertToPyTime env s) = (convertToPyTime (snd (init_convertToPyTime env s)) \<noteq> NULL)"
    and "\<not> fst (init_convertToPyTime env s) \<Longrightarrow> err (snd (init_convertToPyTime env s)) \<noteq> None"
  using cold
  by (simp_all add: init_convertToPyTime_steps [OF refl refl refl refl refl refl refl refl]
        PyUnicode_FromString_valid split: if_splits)

lemma init_convertToPyTime_lookup_fails:
  assumes wf: "wf_state s"
    and fails: "import_result env ''blpapi.datetime'' = NULL
      \<or> attr_result env (import_result env ''blpapi.datetime'') ''_DatetimeUtil'' = NULL
      \<or> attr_result env (attr_result env (import_result env ''blpapi.datetime'') ''_DatetimeUtil'')
           ''toPyTimeFromInts'' = NULL"
  shows "\<not> fst (init_convertToPyTime env s)"
proof -
  define m where "m = import_result env ''blpapi.datetime''"
  define s2 where "s2 = (snd (PyImport_ImportModule env ''blpapi.datetime'' s))\<lparr>blpapiDatetimeModule := m\<rparr>"
  define r1 where "r1 = PyUnicode_FromString ''_DatetimeUtil'' s2"
  define r2 where "r2 = PyObject_GetAttr env m (fst r1) (snd r1)"
  define s5 where "s5 = (snd r2)\<lparr>datetimeUtil := fst r2\<rparr>"
  define r3 where "r3 = PyUnicode_FromString ''toPyTimeFromInts'' s5"
  define r4 where "r4 = PyObject_GetAttr env (fst r2) (fst r3) (snd r3)"
  define s8 where "s8 = (snd r4)\<lparr>convertToPyTime := fst r4\<rparr>"
  note steps = init_convertToPyTime_steps [OF m_def s2_def r1_def r2_def s5_def r3_def r4_def s8_def]
  have n0: "lookup s NULL = None" and nx: "NULL \<noteq> next_addr s"
    using wf wf_state_NULL by (auto simp: wf_state_def NULL_def)
  have n2: "lookup s2 NULL = None"
    unfolding s2_def using n0 by (simp add: lookup_PyImport_None)
  have u: "fst r2 = (if alloc_ok s2 then attr_result env m ''_DatetimeUtil'' else NULL)"
    unfolding r2_def r1_def using n2 by (rule PyObject_GetAttr_result) simp
  have n5: "lookup s5 NULL = None"
    unfolding s5_def r2_def r1_def
    using n2 nx
    by (simp add: PyUnicode_FromString_valid lookup_PyObject_GetAttr_None lookup_new_object_None
          s2_def)
  have f: "fst r4 = (if alloc_ok s5 then attr_result env (fst r2) ''toPyTimeFromInts'' else NULL)"
    unfolding r4_def r3_def using n5 by (rule PyObject_GetAttr_result) simp
  show ?thesis
    using fails u f unfolding steps m_def [symmetric]
    by (auto split: if_splits)
qed

lemma init_convertToPyTime_succeeds:
  assumes cold: "convertToPyTime s = NULL"
    and m: "m = import_result env ''blpapi.datetime''" "m \<noteq> NULL"
    and u: "u = attr_result env m ''_DatetimeUtil''" "u \<noteq> NULL"
    and f: "f = attr_result env u ''toPyTimeFromInts''" "f \<noteq> NULL"
    and mem: "False \<notin> set (take 2 (alloc_plan s))"
  shows "fst (init_convertToPyTime env s)
    \<and> blpapiDatetimeModule (snd (init_convertToPyTime env s)) = m
    \<and> datetimeUtil (snd (init_convertToPyTime env s)) = u
    \<and> convertToPyTime (snd (init_convertToPyTime env s)) = f
    \<and> lookup_events (snd (init_convertToPyTime env s))
        = lookup_events s @ [Call_ImportModule ''blpapi.datetime'', Call_GetAttr ''_DatetimeUtil'',
                             Call_GetAttr ''toPyTimeFromInts'']"
proof -
  define s2 where "s2 = (snd (PyImport_ImportModule env ''blpapi.datetime'' s))\<lparr>blpapiDatetimeModule := m\<rparr>"
  define r1 where "r1 = PyUnicode_FromString ''_DatetimeUtil'' s2"
  define r2 where "r2 = PyObject_GetAttr env m (fst r1) (snd r1)"
  define s5 where "s5 = (snd r2)\<lparr>datetimeUtil := fst r2\<rparr>"
  define r3 where "r3 = PyUnicode_FromString ''toPyTimeFromInts'' s5"
  define r4 where "r4 = PyObject_GetAttr env (fst r2) (fst r3) (snd r3)"
  define s8 where "s8 = (snd r4)\<lparr>convertToPyTime := fst r4\<rparr>"
  note steps = init_convertToPyTime_steps [OF m(1) s2_def r1_def r2_def s5_def r3_def r4_def s8_def]
  have p2: "alloc_plan s2 = alloc_plan s" and t2: "trace s2 = trace s @ [Call_ImportModule ''blpapi.datetime'']"
    by (simp_all add: s2_def)
  have a2: "alloc_ok s2"
    using mem p2 alloc_ok_take [of 1 s2] by (simp add: numeral_2_eq_2)
  have r2: "r2 = (u, Py_INCREF u (log_call (Call_GetAttr ''_DatetimeUtil'') (snd r1)))"
    unfolding r2_def r1_def using u
    by (simp add: PyObject_GetAttr_new_name [OF a2] Let_def)
  have p5: "alloc_plan s5 = tl (alloc_plan s)"
    and t5: "trace s5 = trace s @ [Call_ImportModule ''blpapi.datetime'', Call_GetAttr ''_DatetimeUtil'']"
    and m5: "blpapiDatetimeModule s5 = m"
    by (simp_all add: s5_def r2 r1_def PyUnicode_FromString_valid p2 t2) (simp add: s2_def)
  have a5: "alloc_ok s5"
    using alloc_plan_take_tl [of 1 "alloc_plan s"] mem p5 alloc_ok_take [of 0 s5]
    by (simp add: numeral_2_eq_2)
  have r4: "r4 = (f, Py_INCREF f (log_call (Call_GetAttr ''toPyTimeFromInts'') (snd r3)))"
    unfolding r4_def r3_def using f r2
    by (simp add: PyObject_GetAttr_new_name [OF a5] Let_def)
  have t8: "trace s8 = trace s @ [Call_ImportModule ''blpapi.datetime'', Call_GetAttr ''_DatetimeUtil'',
                                  Call_GetAttr ''toPyTimeFromInts'']"
    and m8: "blpapiDatetimeModule s8 = m" and u8: "datetimeUtil s8 = u" and f8: "convertToPyTime s8 = f"
    by (simp_all add: s8_def r4 r3_def PyUnicode_FromString_valid t5 m5) (simp add: s5_def r2)
  show ?thesis
    unfolding steps using m(2) u(2) f(2) r2 r4 t8 m8 u8 f8
    by (simp add: lookup_events_def)
qed

section \<open>The scalar converter, tag by tag\<close>

lemma getScalarValue_datetime_cases:
  assumes "r0 = (if convertToPyTime s = NULL then init_convertToPyTime env s else (True, s))"
  shows "getScalarValue_datetime env e i s =
     (let s2 = log_call (Call_getValueAsHighPrecisionDatetime i) (snd r0)
      in if \<not> fst r0 then (NULL, snd r0)
         else case blpapi_Element_getValueAsHighPrecisionDatetime e i of
                None \<Rightarrow> (NULL, PyErr_SetString ''Internal error getting datetime'' s2)
              | Some hp \<Rightarrow>
                  if parts (datetime hp) = 0 then Py_RETURN_NONE s2
                  else PyObject_CallFunction env (convertToPyTime s2) (toPyTimeFromInts_args hp) s2)"
  unfolding assms by (simp add: getScalarValue_datetime_def Let_def split_beta)








section \<open>The converters: equations and induction\<close>

text \<open>
  The defining equations of the record and array converters, for an element that is not
  given by its constructor, and the loop of arrays of complex values for a slot that is
  not.
\<close>

lemma complexElementToPy_unfold:
  "complexElementToPy env e s =
     (let (pyDict, s1) = PyDict_New s in
      if pyDict = NULL then complexElementToPy_ERROR pyDict NULL s1
      else complexElementToPy_loop env (subElements e) 0 pyDict NULL s1)"
  by (cases e) (auto simp: Let_def split: prod.splits)

lemma arrayElementToPy_unfold:
  "arrayElementToPy env e s =
     (let (pyList, s1) = PyList_New (blpapi_Element_numValues e) s in
      if pyList = NULL then arrayElementToPy_ERROR pyList NULL s1
      else if blpapi_SchemaTypeDefinition_isComplexType
                (blpapi_SchemaElementDefinition_type (blpapi_Element_definition e))
      then arrayElementToPy_complex_loop env (valueSlots e) 0 pyList NULL
             (log_call Call_isComplexTypeOfDefinition s1)
      else arrayElementToPy_scalar_loop env e [0..<blpapi_Element_numValues e] pyList
             (log_call Call_isComplexTypeOfDefinition s1))"
  by (cases e) (auto simp: blpapi_Element_numValues_def Let_def split: prod.splits)

lemma arrayElementToPy_complex_loop_unfold:
  "arrayElementToPy_complex_loop env (slot # rest) i pyList pyValue s =
     (case asElement slot of
        None \<Rightarrow>
          arrayElementToPy_ERROR pyList pyValue
            (PyErr_SetString ''Internal error in blpapi_Element_getValueAsElement''
               (log_call (Call_getValueAsElement i) s))
      | Some result \<Rightarrow>
          (let (pyValue', s2) = blpapi_Element_toPy env result (log_call (Call_getValueAsElement i) s) in
           if pyValue' = NULL then arrayElementToPy_ERROR pyList pyValue' s2
           else arrayElementToPy_complex_loop env rest (Suc i) pyList pyValue'
                  (snd (PyList_SetItem pyList i pyValue' s2))))"
  by (cases slot) (auto simp: Let_def split: option.splits prod.splits)

lemma complexElementToPy_loop_unfold:
  "complexElementToPy_loop env (got # rest) i pyDict subElementPy s =
     (case got of
        None \<Rightarrow>
          complexElementToPy_ERROR pyDict subElementPy
            (PyErr_SetString ''Internal error in `Element.toPy`'' (log_call (Call_getElementAt i) s))
      | Some subElement \<Rightarrow>
          (let (subElementPy', s2) = blpapi_Element_toPy env subElement (log_call (Call_getElementAt i) s) in
           if subElementPy' = NULL then complexElementToPy_ERROR pyDict subElementPy' s2
           else
             (let (failed, s3) = PyDict_SetItemString pyDict (blpapi_Element_nameString subElement)
                                   subElementPy' s2 in
              if failed \<noteq> 0 then complexElementToPy_ERROR pyDict subElementPy' s3
              else complexElementToPy_loop env rest (Suc i) pyDict subElementPy'
                     (Py_DECREF subElementPy' s3))))"
  by (auto simp: Let_def split: option.splits prod.splits)

lemma arrayElementToPy_scalar_loop_unfold:
  "arrayElementToPy_scalar_loop env e (i # rest) pyList s =
     (let (pyValue, s1) = getScalarValue env e i s in
      if pyValue = NULL then arrayElementToPy_ERROR pyList pyValue s1
      else arrayElementToPy_scalar_loop env e rest pyList (snd (PyList_SetItem pyList i pyValue s1)))"
  by simp

declare blpapi_Element_toPy.simps [simp del]
declare complexElementToPy.simps [simp del]
declare complexElementToPy_loop.simps(2) [simp del]
declare arrayElementToPy.simps [simp del]
declare arrayElementToPy_complex_loop.simps(2) [simp del]
declare arrayElementToPy_scalar_loop.simps(2) [simp del]

text \<open>Induction along the calls of the three converters and their two loops.\<close>

lemma converters_induct:
  fixes P1 :: "pyenv \<Rightarrow> blpapi_Element_t \<Rightarrow> pystate \<Rightarrow> bool"
    and P2 :: "pyenv \<Rightarrow> blpapi_Element_t \<Rightarrow> pystate \<Rightarrow> bool"
    and P3 :: "pyenv \<Rightarrow> blpapi_Element_t option list \<Rightarrow> nat \<Rightarrow> addr \<Rightarrow> addr \<Rightarrow> pystate \<Rightarrow> bool"
    and P4 :: "pyenv \<Rightarrow> blpapi_Element_t \<Rightarrow> pystate \<Rightarrow> bool"
    and P5 :: "pyenv \<Rightarrow> value_slot list \<Rightarrow> nat \<Rightarrow> addr \<Rightarrow> addr \<Rightarrow> pystate \<Rightarrow> bool"
  assumes toPy: "\<And>env e s.
        (blpapi_Element_isComplexType e \<Longrightarrow> P2 env e s) \<Longrightarrow>
        (\<not> blpapi_Element_isComplexType e \<Longrightarrow> blpapi_Element_isArray e \<Longrightarrow> P4 env e s) \<Longrightarrow>
        P1 env e s"
    and rec_start: "\<And>env e s.
        (\<And>d s1. PyDict_New s = (d, s1) \<Longrightarrow> d \<noteq> NULL \<Longrightarrow> P3 env (subElements e) 0 d NULL s1) \<Longrightarrow>
        P2 env e s"
    and rec_done: "\<And>env i d sp s. P3 env [] i d sp s"
    and rec_step: "\<And>env got rest i d sp s.
        (\<And>sub. got = Some sub \<Longrightarrow> P1 env sub (log_call (Call_getElementAt i) s)) \<Longrightarrow>
        (\<And>sub a s2 s3. got = Some sub \<Longrightarrow>
            blpapi_Element_toPy env sub (log_call (Call_getElementAt i) s) = (a, s2) \<Longrightarrow>
            a \<noteq> NULL \<Longrightarrow>
            PyDict_SetItemString d (blpapi_Element_nameString sub) a s2 = (0, s3) \<Longrightarrow>
            P3 env rest (Suc i) d a (Py_DECREF a s3)) \<Longrightarrow>
        P3 env (got # rest) i d sp s"
    and arr_start: "\<And>env e s.
        (\<And>l s1. PyList_New (blpapi_Element_numValues e) s = (l, s1) \<Longrightarrow> l \<noteq> NULL \<Longrightarrow>
            blpapi_SchemaTypeDefinition_isComplexType
              (blpapi_SchemaElementDefinition_type (blpapi_Element_definition e)) \<Longrightarrow>
            P5 env (valueSlots e) 0 l NULL (log_call Call_isComplexTypeOfDefinition s1)) \<Longrightarrow>
        P4 env e s"
    and arr_done: "\<And>env i l pv s. P5 env [] i l pv s"
    and arr_step: "\<And>env slot rest i l pv s.
        (\<And>r. asElement slot = Some r \<Longrightarrow> P1 env r (log_call (Call_getValueAsElement i) s)) \<Longrightarrow>
        (\<And>r a s2. asElement slot = Some r \<Longrightarrow>
            blpapi_Element_toPy env r (log_call (Call_getValueAsElement i) s) = (a, s2) \<Longrightarrow>
            a \<noteq> NULL \<Longrightarrow>
            P5 env rest (Suc i) l a (snd (PyList_SetItem l i a s2))) \<Longrightarrow>
        P5 env (slot # rest) i l pv s"
  shows "P1 env e s" and "P2 env e s" and "P3 env subs i d sp s" and "P4 env e s"
    and "P5 env slots i l pv s"
proof (induction env e s and env e s and env subs i d sp s and env e s and env slots i l pv s
      rule: blpapi_Element_toPy_complexElementToPy_complexElementToPy_loop_arrayElementToPy_arrayElementToPy_complex_loop.induct)
    case (1 env element s)
    then show ?case by (intro toPy) auto
  next
    case (2 env nm dt cx ar nl df subs vals s)
    show ?case
    proof (rule rec_start)
      fix d s1 assume "PyDict_New s = (d, s1)" "d \<noteq> NULL"
      then show "P3 env (subElements (Element nm dt cx ar nl df subs vals)) 0 d NULL s1"
        using 2 [of "(d, s1)" d s1] by simp
    qed
  next
    case (3 env i pyDict subElementPy s)
    show ?case by (rule rec_done)
  next
    case (4 env got rest i pyDict subElementPy s)
    show ?case
    proof (rule rec_step)
      fix sub assume "got = Some sub"
      then show "P1 env sub (log_call (Call_getElementAt i) s)"
        using 4(1) by simp
    next
      fix sub a s2 s3
      assume "got = Some sub"
        and "blpapi_Element_toPy env sub (log_call (Call_getElementAt i) s) = (a, s2)"
        and "a \<noteq> NULL"
        and "PyDict_SetItemString pyDict (blpapi_Element_nameString sub) a s2 = (0, s3)"
      then show "P3 env rest (Suc i) pyDict a (Py_DECREF a s3)"
        using 4(2) [of "log_call (Call_getElementAt i) s" sub "blpapi_Element_nameString sub"
            "(a, s2)" a s2 "(0, s3)" 0 s3]
        by simp
    qed
  next
    case (5 env nm dt cx ar nl df subs vals s)
    show ?case
    proof (rule arr_start)
      fix l s1
      assume "PyList_New (blpapi_Element_numValues (Element nm dt cx ar nl df subs vals)) s = (l, s1)"
        and "l \<noteq> NULL"
        and "blpapi_SchemaTypeDefinition_isComplexType
              (blpapi_SchemaElementDefinition_type
                (blpapi_Element_definition (Element nm dt cx ar nl df subs vals)))"
      then show "P5 env (valueSlots (Element nm dt cx ar nl df subs vals)) 0 l NULL
              (log_call Call_isComplexTypeOfDefinition s1)"
        using 5 [of "length vals" "(l, s1)" l s1 "blpapi_SchemaElementDefinition_type df"
            "log_call Call_isComplexTypeOfDefinition s1"]
        by (simp add: blpapi_Element_numValues_def)
    qed
  next
    case (6 env i pyList pyValue s)
    show ?case by (rule arr_done)
  next
    case (7 env vb vi vf vs vy vh got rest i pyList pyValue s)
    show ?case
    proof (rule arr_step)
      fix r assume "asElement (ValueSlot vb vi vf vs vy vh got) = Some r"
      then show "P1 env r (log_call (Call_getValueAsElement i) s)"
        using 7(1) by simp
    next
      fix r a s2
      assume "asElement (ValueSlot vb vi vf vs vy vh got) = Some r"
        and "blpapi_Element_toPy env r (log_call (Call_getValueAsElement i) s) = (a, s2)"
        and "a \<noteq> NULL"
      then show "P5 env rest (Suc i) pyList a (snd (PyList_SetItem pyList i a s2))"
        using 7(2) [of "log_call (Call_getValueAsElement i) s" r "(a, s2)" a s2]
        by simp
    qed
qed

lemma converters_induct_all:
  fixes P1 :: "pyenv \<Rightarrow> blpapi_Element_t \<Rightarrow> pystate \<Rightarrow> bool"
    and P2 :: "pyenv \<Rightarrow> blpapi_Element_t \<Rightarrow> pystate \<Rightarrow> bool"
    and P3 :: "pyenv \<Rightarrow> blpapi_Element_t option list \<Rightarrow> nat \<Rightarrow> addr \<Rightarrow> addr \<Rightarrow> pystate \<Rightarrow> bool"
    and P4 :: "pyenv \<Rightarrow> blpapi_Element_t \<Rightarrow> pystate \<Rightarrow> bool"
    and P5 :: "pyenv \<Rightarrow> value_slot list \<Rightarrow> nat \<Rightarrow> addr \<Rightarrow> addr \<Rightarrow> pystate \<Rightarrow> bool"
  assumes toPy: "\<And>env e s.
        (blpapi_Element_isComplexType e \<Longrightarrow> P2 env e s) \<Longrightarrow>
        (\<not> blpapi_Element_isComplexType e \<Longrightarrow> blpapi_Element_isArray e \<Longrightarrow> P4 env e s) \<Longrightarrow>
        P1 env e s"
    and rec_start: "\<And>env e s.
        (\<And>d s1. PyDict_New s = (d, s1) \<Longrightarrow> d \<noteq> NULL \<Longrightarrow> P3 env (subElements e) 0 d NULL s1) \<Longrightarrow>
        P2 env e s"
    and rec_done: "\<And>env i d sp s. P3 env [] i d sp s"
    and rec_step: "\<And>env got rest i d sp s.
        (\<And>sub. got = Some sub \<Longrightarrow> P1 env sub (log_call (Call_getElementAt i) s)) \<Longrightarrow>
        (\<And>sub a s2 s3. got = Some sub \<Longrightarrow>
            blpapi_Element_toPy env sub (log_call (Call_getElementAt i) s) = (a, s2) \<Longrightarrow>
            a \<noteq> NULL \<Longrightarrow>
            PyDict_SetItemString d (blpapi_Element_nameString sub) a s2 = (0, s3) \<Longrightarrow>
            P3 env rest (Suc i) d a (Py_DECREF a s3)) \<Longrightarrow>
        P3 env (got # rest) i d sp s"
    and arr_start: "\<And>env e s.
        (\<And>l s1. PyList_New (blpapi_Element_numValues e) s = (l, s1) \<Longrightarrow> l \<noteq> NULL \<Longrightarrow>
            blpapi_SchemaTypeDefinition_isComplexType
              (blpapi_SchemaElementDefinition_type (blpapi_Element_definition e)) \<Longrightarrow>
            P5 env (valueSlots e) 0 l NULL (log_call Call_isComplexTypeOfDefinition s1)) \<Longrightarrow>
        P4 env e s"
    and arr_done: "\<And>env i l pv s. P5 env [] i l pv s"
    and arr_step: "\<And>env slot rest i l pv s.
        (\<And>r. asElement slot = Some r \<Longrightarrow> P1 env r (log_call (Call_getValueAsElement i) s)) \<Longrightarrow>
        (\<And>r a s2. asElement slot = Some r \<Longrightarrow>
            blpapi_Element_toPy env r (log_call (Call_getValueAsElement i) s) = (a, s2) \<Longrightarrow>
            a \<noteq> NULL \<Longrightarrow>
            P5 env rest (Suc i) l a (snd (PyList_SetItem l i a s2))) \<Longrightarrow>
        P5 env (slot # rest) i l pv s"
  shows "P1 env e s \<and> P2 env e2 s2 \<and> P3 env subs i d sp s3 \<and> P4 env e4 s4
         \<and> P5 env slots j l pv s5"
  by (intro conjI;
      rule converters_induct [where ?P1.0 = P1 and ?P2.0 = P2 and ?P3.0 = P3 and ?P4.0 = P4
             and ?P5.0 = P5, OF toPy rec_start rec_done rec_step arr_start arr_done arr_step])

section \<open>What every conversion preserves\<close>

lemma preserved_by_stepsD:
  assumes "preserved_by_steps R"
  shows "R s s"
    and "R s t \<Longrightarrow> R t u \<Longrightarrow> R s u"
    and "R s (PyErr_SetString msg s)"
    and "R s (Py_XDECREF a s)"
    and "R s (Py_DECREF a s)"
    and "R s (snd (getScalarValue env e i s))"
    and "R s (snd (PyList_SetItem l i a s))"
    and "R s (snd (PyDict_SetItemString d k a s))"
    and "\<not> is_lookup ev \<Longrightarrow> \<not> is_helper_call ev \<Longrightarrow> R s (log_call ev s)"
    and "R s (snd (new_object v s))"
    and "R s (snd (Py_RETURN_NONE s))"
proof -
  from assms have c1: "\<forall>s. R s s"
    and c2: "\<forall>s t u. R s t \<longrightarrow> R t u \<longrightarrow> R s u"
    and c3: "\<forall>msg s. R s (PyErr_SetString msg s)"
    and c4: "\<forall>a s. R s (Py_XDECREF a s)"
    and c5: "\<forall>a s. R s (Py_DECREF a s)"
    and c6: "\<forall>env e i s. R s (snd (getScalarValue env e i s))"
    and c7: "\<forall>l i v s. R s (snd (PyList_SetItem l i v s))"
    and c8: "\<forall>d k v s. R s (snd (PyDict_SetItemString d k v s))"
    and c9: "\<forall>ev s. \<not> is_lookup ev \<longrightarrow> \<not> is_helper_call ev \<longrightarrow> R s (log_call ev s)"
    and c10: "\<forall>v s. R s (snd (new_object v s))"
    and c11: "\<forall>s. R s (snd (Py_RETURN_NONE s))"
    unfolding preserved_by_steps_def by simp_all
  show "R s s" using c1 by simp
  show "R s t \<Longrightarrow> R t u \<Longrightarrow> R s u" using c2 by blast
  show "R s (PyErr_SetString msg s)" using c3 by simp
  show "R s (Py_XDECREF a s)" using c4 by simp
  show "R s (Py_DECREF a s)" using c5 by simp
  show "R s (snd (getScalarValue env e i s))" using c6 by simp
  show "R s (snd (PyList_SetItem l i a s))" using c7 by simp
  show "R s (snd (PyDict_SetItemString d k a s))" using c8 by simp
  show "\<not> is_lookup ev \<Longrightarrow> \<not> is_helper_call ev \<Longrightarrow> R s (log_call ev s)" using c9 by simp
  show "R s (snd (new_object v s))" using c10 by simp
  show "R s (snd (Py_RETURN_NONE s))" using c11 by simp
qed

text \<open>
  A relation between the state before and the state after that every primitive step of a
  conversion establishes, and that is reflexive and transitive, holds across every
  conversion.
\<close>

lemma ERROR_preserve:
  fixes R :: "pystate \<Rightarrow> pystate \<Rightarrow> bool"
  assumes R: "preserved_by_steps R"
    and before: "R s0 s"
  shows "R s0 (snd (complexElementToPy_ERROR d sp s))"
    and "R s0 (snd (arrayElementToPy_ERROR d sp s))"
proof -
  note R_trans = preserved_by_stepsD(2) [OF R] and R_err = preserved_by_stepsD(3) [OF R]
    and R_xdecref = preserved_by_stepsD(4) [OF R]
  have a: "R s0 (Py_XDECREF sp (Py_XDECREF d s))"
    by (rule R_trans [OF R_trans [OF before R_xdecref] R_xdecref])
  have b: "R s0 (PyErr_SetString msg (Py_XDECREF sp (Py_XDECREF d s)))" for msg
    by (rule R_trans [OF a R_err])
  show "R s0 (snd (complexElementToPy_ERROR d sp s))"
    using a b by (simp add: complexElementToPy_ERROR_def Let_def)
  show "R s0 (snd (arrayElementToPy_ERROR d sp s))"
    using a b by (simp add: arrayElementToPy_ERROR_def Let_def)
qed

lemma scalar_loop_preserve:
  fixes R :: "pystate \<Rightarrow> pystate \<Rightarrow> bool"
  assumes R: "preserved_by_steps R"
  shows "R s0 s \<Longrightarrow> R s0 (snd (arrayElementToPy_scalar_loop env e idxs l s))"
proof (induction idxs arbitrary: s)
  case Nil
  then show ?case by simp
next
  case (Cons i rest)
  note R_trans = preserved_by_stepsD(2) [OF R] and R_scalar = preserved_by_stepsD(6) [OF R]
    and R_setitem = preserved_by_stepsD(7) [OF R]
  obtain a s1 where g: "getScalarValue env e i s = (a, s1)" by (cases "getScalarValue env e i s")
  have "R s s1" using R_scalar [where s = s and e = e and i = i and env = env] g by simp
  then have s1: "R s0 s1" by (rule R_trans [OF Cons.prems])
  show ?case
  proof (cases "a = NULL")
    case True
    have "arrayElementToPy_scalar_loop env e (i # rest) l s = arrayElementToPy_ERROR l a s1"
      using g True by (simp add: arrayElementToPy_scalar_loop_unfold)
    then show ?thesis
      using ERROR_preserve(2) [OF R s1] by simp
  next
    case False
    have eq: "arrayElementToPy_scalar_loop env e (i # rest) l s
        = arrayElementToPy_scalar_loop env e rest l (snd (PyList_SetItem l i a s1))"
      using g False by (simp add: arrayElementToPy_scalar_loop_unfold)
    have "R s0 (snd (PyList_SetItem l i a s1))"
      by (rule R_trans [OF s1 R_setitem])
    then show ?thesis
      unfolding eq by (rule Cons.IH)
  qed
qed

lemma converters_preserve:
  fixes R :: "pystate \<Rightarrow> pystate \<Rightarrow> bool"
  assumes R: "preserved_by_steps R"
  shows "(\<forall>s0. R s0 s \<longrightarrow> R s0 (snd (blpapi_Element_toPy env e s)))
       \<and> (\<forall>s0. R s0 s2 \<longrightarrow> R s0 (snd (complexElementToPy env e2 s2)))
       \<and> (\<forall>s0. R s0 s3 \<longrightarrow> R s0 (snd (complexElementToPy_loop env subs i d sp s3)))
       \<and> (\<forall>s0. R s0 s4 \<longrightarrow> R s0 (snd (arrayElementToPy env e4 s4)))
       \<and> (\<forall>s0. R s0 s5 \<longrightarrow> R s0 (snd (arrayElementToPy_complex_loop env slots j l pv s5)))"
proof -
  note R_trans = preserved_by_stepsD(2) [OF R] and R_err = preserved_by_stepsD(3) [OF R]
    and R_decref = preserved_by_stepsD(5) [OF R] and R_scalar = preserved_by_stepsD(6) [OF R]
    and R_setitem = preserved_by_stepsD(7) [OF R] and R_dictset = preserved_by_stepsD(8) [OF R]
    and R_log = preserved_by_stepsD(9) [OF R] and R_new = preserved_by_stepsD(10) [OF R]
    and R_none = preserved_by_stepsD(11) [OF R]
  show ?thesis
  proof (rule converters_induct_all
    [where ?P1.0 = "\<lambda>env e s. \<forall>s0. R s0 s \<longrightarrow> R s0 (snd (blpapi_Element_toPy env e s))"
       and ?P2.0 = "\<lambda>env e s. \<forall>s0. R s0 s \<longrightarrow> R s0 (snd (complexElementToPy env e s))"
       and ?P3.0 = "\<lambda>env subs i d sp s. \<forall>s0. R s0 s \<longrightarrow>
                      R s0 (snd (complexElementToPy_loop env subs i d sp s))"
       and ?P4.0 = "\<lambda>env e s. \<forall>s0. R s0 s \<longrightarrow> R s0 (snd (arrayElementToPy env e s))"
       and ?P5.0 = "\<lambda>env slots i l pv s. \<forall>s0. R s0 s \<longrightarrow>
                      R s0 (snd (arrayElementToPy_complex_loop env slots i l pv s))"],
    goal_cases)
  case (1 env e s)
  show ?case
  proof (intro allI impI)
    fix s0 assume b: "R s0 s"
    show "R s0 (snd (blpapi_Element_toPy env e s))"
      using 1 b R_trans [OF b R_none] R_trans [OF b R_scalar]
      by (simp add: blpapi_Element_toPy.simps)
  qed
next
  case (2 env e s)
  show ?case
  proof (intro allI impI)
    fix s0 assume b: "R s0 s"
    obtain d s1 where n: "PyDict_New s = (d, s1)" by (cases "PyDict_New s")
    have "R s s1" using R_new [where s = s and v = "PyDict []"] n by (simp add: PyDict_New_def)
    then have s1: "R s0 s1" by (rule R_trans [OF b])
    show "R s0 (snd (complexElementToPy env e s))"
    proof (cases "d = NULL")
      case True
      have "complexElementToPy env e s = complexElementToPy_ERROR d NULL s1"
        using n True by (simp add: complexElementToPy_unfold)
      then show ?thesis
        using ERROR_preserve(1) [OF R s1] by simp
    next
      case False
      have "complexElementToPy env e s = complexElementToPy_loop env (subElements e) 0 d NULL s1"
        using n False by (simp add: complexElementToPy_unfold)
      then show ?thesis
        using 2 [OF n False] s1 by simp
    qed
  qed
next
  case (3 env i d sp s)
  show ?case by simp
next
  case (4 env got rest i d sp s)
  show ?case
  proof (intro allI impI)
    fix s0 assume b: "R s0 s"
    let ?s0 = "log_call (Call_getElementAt i) s"
    have s0: "R s0 ?s0" by (rule R_trans [OF b R_log]) simp_all
    note E = ERROR_preserve(1) [OF R]
    show "R s0 (snd (complexElementToPy_loop env (got # rest) i d sp s))"
    proof (cases got)
      case None
      have "complexElementToPy_loop env (got # rest) i d sp s
          = complexElementToPy_ERROR d sp (PyErr_SetString ''Internal error in `Element.toPy`'' ?s0)"
        using None by (simp add: complexElementToPy_loop_unfold)
      then show ?thesis
        using E [OF R_trans [OF s0 R_err]] by simp
    next
      case (Some sub)
      obtain a s2 where c: "blpapi_Element_toPy env sub ?s0 = (a, s2)"
        by (cases "blpapi_Element_toPy env sub ?s0")
      have s2: "R s0 s2" using 4(1) [OF Some] c s0 by auto
      show ?thesis
      proof (cases "a = NULL")
        case True
        have "complexElementToPy_loop env (got # rest) i d sp s = complexElementToPy_ERROR d a s2"
          using Some c True by (simp add: complexElementToPy_loop_unfold)
        then show ?thesis
          using E [OF s2] by simp
      next
        case False
        obtain f s3 where p: "PyDict_SetItemString d (blpapi_Element_nameString sub) a s2 = (f, s3)"
          by (cases "PyDict_SetItemString d (blpapi_Element_nameString sub) a s2")
        have "R s2 s3"
          using R_dictset [where s = s2 and d = d and k = "blpapi_Element_nameString sub" and a = a] p
          by simp
        then have s3: "R s0 s3" by (rule R_trans [OF s2])
        show ?thesis
        proof (cases "f = 0")
          case True
          have eq: "complexElementToPy_loop env (got # rest) i d sp s
              = complexElementToPy_loop env rest (Suc i) d a (Py_DECREF a s3)"
            using Some c False p True by (simp add: complexElementToPy_loop_unfold)
          have "R s0 (Py_DECREF a s3)" by (rule R_trans [OF s3 R_decref])
          then show ?thesis
            unfolding eq using 4(2) [OF Some c False p [unfolded True]] by simp
        next
          case nz: False
          have "complexElementToPy_loop env (got # rest) i d sp s = complexElementToPy_ERROR d a s3"
            using Some c False p nz by (simp add: complexElementToPy_loop_unfold)
          then show ?thesis
            using E [OF s3] by simp
        qed
      qed
    qed
  qed
next
  case (5 env e s)
  show ?case
  proof (intro allI impI)
    fix s0 assume b: "R s0 s"
    obtain l s1 where n: "PyList_New (blpapi_Element_numValues e) s = (l, s1)"
      by (cases "PyList_New (blpapi_Element_numValues e) s")
    have "R s s1"
      using R_new [where s = s and v = "PyList (replicate (blpapi_Element_numValues e) NULL)"] n
      by (simp add: PyList_New_def)
    then have s1: "R s0 s1" by (rule R_trans [OF b])
    have s2: "R s0 (log_call Call_isComplexTypeOfDefinition s1)"
      by (rule R_trans [OF s1 R_log]) simp_all
    show "R s0 (snd (arrayElementToPy env e s))"
    proof (cases "l = NULL")
      case True
      have "arrayElementToPy env e s = arrayElementToPy_ERROR l NULL s1"
        using n True by (simp add: arrayElementToPy_unfold)
      then show ?thesis
        using ERROR_preserve(2) [OF R s1] by simp
    next
      case False
      show ?thesis
      proof (cases "blpapi_SchemaTypeDefinition_isComplexType
                (blpapi_SchemaElementDefinition_type (blpapi_Element_definition e))")
        case True
        have "arrayElementToPy env e s = arrayElementToPy_complex_loop env (valueSlots e) 0 l NULL
                (log_call Call_isComplexTypeOfDefinition s1)"
          using n False True by (simp add: arrayElementToPy_unfold)
        then show ?thesis
          using 5 [OF n False True] s2 by simp
      next
        case scalar: False
        have "arrayElementToPy env e s = arrayElementToPy_scalar_loop env e
                [0..<blpapi_Element_numValues e] l (log_call Call_isComplexTypeOfDefinition s1)"
          using n False scalar by (simp add: arrayElementToPy_unfold)
        then show ?thesis
          using scalar_loop_preserve [OF R s2]
          by simp
      qed
    qed
  qed
next
  case (6 env i l pv s)
  show ?case by simp
next
  case (7 env slot rest i l pv s)
  show ?case
  proof (intro allI impI)
    fix s0 assume b: "R s0 s"
    let ?s0 = "log_call (Call_getValueAsElement i) s"
    have s0: "R s0 ?s0" by (rule R_trans [OF b R_log]) simp_all
    note E = ERROR_preserve(2) [OF R]
    show "R s0 (snd (arrayElementToPy_complex_loop env (slot # rest) i l pv s))"
    proof (cases "asElement slot")
      case None
      have "arrayElementToPy_complex_loop env (slot # rest) i l pv s
          = arrayElementToPy_ERROR l pv
              (PyErr_SetString ''Internal error in blpapi_Element_getValueAsElement'' ?s0)"
        using None by (simp add: arrayElementToPy_complex_loop_unfold)
      then show ?thesis
        using E [OF R_trans [OF s0 R_err]] by simp
    next
      case (Some r)
      obtain a s2 where c: "blpapi_Element_toPy env r ?s0 = (a, s2)"
        by (cases "blpapi_Element_toPy env r ?s0")
      have s2: "R s0 s2" using 7(1) [OF Some] c s0 by auto
      show ?thesis
      proof (cases "a = NULL")
        case True
        have "arrayElementToPy_complex_loop env (slot # rest) i l pv s = arrayElementToPy_ERROR l a s2"
          using Some c True by (simp add: arrayElementToPy_complex_loop_unfold)
        then show ?thesis
          using E [OF s2] by simp
      next
        case False
        have eq: "arrayElementToPy_complex_loop env (slot # rest) i l pv s
            = arrayElementToPy_complex_loop env rest (Suc i) l a (snd (PyList_SetItem l i a s2))"
          using Some c False by (simp add: arrayElementToPy_complex_loop_unfold)
        have "R s0 (snd (PyList_SetItem l i a s2))" by (rule R_trans [OF s2 R_setitem])
        then show ?thesis
          unfolding eq using 7(2) [OF Some c False] by simp
      qed
    qed
  qed
qed
qed

section \<open>The helper is resolved at most once\<close>

lemma lookup_events_simps [simp]:
  "lookup_events (log_call ev s) = lookup_events s @ (if is_lookup ev then [ev] else [])"
  "lookup_events (PyErr_SetString msg s) = lookup_events s"
  "lookup_events (Py_XDECREF a s) = lookup_events s"
  "lookup_events (Py_DECREF a s) = lookup_events s"
  "lookup_events (Py_INCREF a s) = lookup_events s"
  "lookup_events (snd (new_object v s)) = lookup_events s"
  "lookup_events (snd (Py_RETURN_NONE s)) = lookup_events s"
  "lookup_events (snd (PyBool_FromLong b s)) = lookup_events s"
  "lookup_events (snd (PyUnicode_FromString x s)) = lookup_events s"
  "lookup_events (snd (PyLong_FromLongLong w s)) = lookup_events s"
  by (simp_all add: lookup_events_def)

lemma PyList_SetItem_fields [simp]:
  "next_addr (snd (PyList_SetItem l i v s)) = next_addr s"
  "alloc_plan (snd (PyList_SetItem l i v s)) = alloc_plan s"
  "trace (snd (PyList_SetItem l i v s)) = trace s"
  "blpapiDatetimeModule (snd (PyList_SetItem l i v s)) = blpapiDatetimeModule s"
  "datetimeUtil (snd (PyList_SetItem l i v s)) = datetimeUtil s"
  "convertToPyTime (snd (PyList_SetItem l i v s)) = convertToPyTime s"
  by (simp_all add: PyList_SetItem_def split: option.splits pyval.splits prod.splits)

lemma PyDict_SetItemString_fields [simp]:
  "next_addr (snd (PyDict_SetItemString d k v s)) = next_addr s"
  "alloc_plan (snd (PyDict_SetItemString d k v s)) = tl (alloc_plan s)"
  "trace (snd (PyDict_SetItemString d k v s)) = trace s"
  "blpapiDatetimeModule (snd (PyDict_SetItemString d k v s)) = blpapiDatetimeModule s"
  "datetimeUtil (snd (PyDict_SetItemString d k v s)) = datetimeUtil s"
  "convertToPyTime (snd (PyDict_SetItemString d k v s)) = convertToPyTime s"
  by (simp_all add: PyDict_SetItemString_def Let_def
        split: option.splits pyval.splits prod.splits list.splits bool.splits)

lemma lookup_events_containers [simp]:
  "lookup_events (snd (PyList_SetItem l i v s)) = lookup_events s"
  "lookup_events (snd (PyDict_SetItemString d k v s)) = lookup_events s"
  by (simp_all add: lookup_events_def)

lemma getScalarValue_datetime_warm:
  assumes "convertToPyTime s \<noteq> NULL"
  shows "same_resolution s (snd (getScalarValue_datetime env e i s))"
  using assms
  by (simp add: getScalarValue_datetime_def same_resolution_def Let_def split: option.splits)

lemma getScalarValue_same_resolution:
  "same_resolution s (snd (getScalarValue env e i s))"
proof (cases "convertToPyTime s = NULL")
  case True
  then show ?thesis by (simp add: same_resolution_def)
next
  case False
  then have "same_resolution (log_call Call_datatype s)
      (snd (getScalarValue_datetime env e i (log_call Call_datatype s)))"
    by (intro getScalarValue_datetime_warm) simp
  then have d: "same_resolution s (snd (getScalarValue_datetime env e i (log_call Call_datatype s)))"
    by (simp add: same_resolution_def)
  show ?thesis
    unfolding getScalarValue_def Let_def
    using d
    by (simp add: same_resolution_def PyFloat_FromDouble_def PyBytes_FromStringAndSize_def
          split: option.splits)
qed

lemma same_resolution_steps: "preserved_by_steps same_resolution"
  unfolding preserved_by_steps_def
  by (intro conjI allI impI getScalarValue_same_resolution)
     (simp_all add: same_resolution_def)

lemma blpapi_Element_toPy_same_resolution:
  "same_resolution s (snd (blpapi_Element_toPy env e s))"
  using converters_preserve [OF same_resolution_steps, THEN conjunct1, of s env e]
    preserved_by_stepsD(1) [OF same_resolution_steps]
  by blast

section \<open>Well-formed states and reference counts under the primitives\<close>

lemma lookup_heap_update [simp]:
  "lookup (s\<lparr>heap := AList.update a x (heap s)\<rparr>) b = (if b = a then Some x else lookup s b)"
  "lookup (s\<lparr>heap := AList.delete a (heap s)\<rparr>) b = (if b = a then None else lookup s b)"
  by (simp_all add: lookup_def update_conv' delete_conv')

lemma wf_state_cong:
  "heap s' = heap s \<Longrightarrow> next_addr s' = next_addr s \<Longrightarrow> wf_state s' = wf_state s"
  by (simp add: wf_state_def)

lemma list_all_AList_update:
  "list_all P al \<Longrightarrow> P (k, v) \<Longrightarrow> list_all P (AList.update k v al)"
  by (induction al) auto

lemma list_all_AList_delete: "list_all P al \<Longrightarrow> list_all P (AList.delete k al)"
  by (induction al) auto

lemma wf_state_update:
  "wf_state s \<Longrightarrow> 265 < a \<Longrightarrow> a < next_addr s \<Longrightarrow> 1 \<le> rc \<Longrightarrow>
   wf_state (s\<lparr>heap := AList.update a (rc, v) (heap s)\<rparr>)"
  by (simp add: wf_state_def list_all_AList_update)

lemma wf_state_delete: "wf_state s \<Longrightarrow> wf_state (s\<lparr>heap := AList.delete a (heap s)\<rparr>)"
  by (simp add: wf_state_def list_all_AList_delete)

lemma wf_state_static: "wf_state s \<Longrightarrow> is_static a \<Longrightarrow> a < next_addr s \<and> lookup s a = None"
proof -
  assume wf: "wf_state s" and st: "is_static a"
  from wf st have "a < next_addr s" by (simp add: wf_state_def is_static_iff)
  moreover have "lookup s a = None"
  proof (cases "lookup s a")
    case (Some ob)
    then obtain rc v where "lookup s a = Some (rc, v)" by (cases ob) simp
    from wf_state_lookup [OF wf this] st show ?thesis by (simp add: is_static_iff)
  qed simp
  ultimately show ?thesis by simp
qed

lemma heap_Py_INCREF_static: "is_static a \<Longrightarrow> heap (Py_INCREF a s) = heap s"
  by (simp add: Py_INCREF_def)

lemma heap_Py_INCREF_dangling: "lookup s a = None \<Longrightarrow> heap (Py_INCREF a s) = heap s"
  by (simp add: Py_INCREF_def violation_def)

lemma wf_state_Py_INCREF: "wf_state s \<Longrightarrow> wf_state (Py_INCREF a s)"
proof -
  assume wf: "wf_state s"
  show ?thesis
  proof (cases "is_static a")
    case True
    with wf show ?thesis by (simp add: wf_state_cong [OF heap_Py_INCREF_static])
  next
    case st: False
    show ?thesis
    proof (cases "lookup s a")
      case None
      with wf show ?thesis by (simp add: wf_state_cong [OF heap_Py_INCREF_dangling])
    next
      case (Some ob)
      obtain rc v where ob: "ob = (rc, v)" by (cases ob)
      from wf_state_lookup [OF wf Some [unfolded ob]]
      have "265 < a" "a < next_addr s" "1 \<le> rc + 1"
        by simp_all
      from wf_state_update [OF wf this] st Some ob show ?thesis
        by (simp add: Py_INCREF_def)
    qed
  qed
qed

lemma wf_state_decref_all: "wf_state s \<Longrightarrow> wf_state (decref_all as s)"
proof (induction as s rule: decref_all_induct)
  case (Nil s)
  then show ?case by simp
next
  case (Null as s)
  then show ?case by simp
next
  case (Static a as s)
  then show ?case by (simp add: decref_all_static wf_state_def)
next
  case (Dangling a as s)
  then show ?case by (simp add: decref_all_dangling wf_state_def)
next
  case (Free a as s v)
  then show ?case by (simp add: decref_all_free wf_state_delete)
next
  case (Keep a as s rc v)
  from Keep.prems Keep.hyps(3) have "265 < a \<and> a < next_addr s \<and> 1 \<le> rc"
    by (auto dest: wf_state_lookup simp: lookup_def)
  with Keep show ?case by (simp add: decref_all_keep wf_state_update)
qed

lemma wf_state_Py_DECREF: "wf_state s \<Longrightarrow> wf_state (Py_DECREF a s)"
  by (simp add: Py_DECREF_def wf_state_decref_all)
     (simp add: violation_def wf_state_def)

lemma wf_state_new_object_ok:
  assumes "wf_state s"
  shows "wf_state (s\<lparr>heap := AList.update (next_addr s) (1, v) (heap s),
                     next_addr := Suc (next_addr s), alloc_plan := p\<rparr>)"
proof -
  from assms have n: "265 < next_addr s"
    and h: "list_all (\<lambda>(a, rc, v). 265 < a \<and> a < next_addr s \<and> 1 \<le> rc) (heap s)"
    by (simp_all add: wf_state_def)
  from h have "list_all (\<lambda>(a, rc, v). 265 < a \<and> a < Suc (next_addr s) \<and> 1 \<le> rc) (heap s)"
    by (auto simp: list_all_iff)
  with n show ?thesis
    by (simp add: wf_state_def list_all_AList_update)
qed

lemma wf_state_new_object: "wf_state s \<Longrightarrow> wf_state (snd (new_object v s))"
  by (cases "alloc_ok s")
     (simp_all add: new_object_ok new_object_fails wf_state_new_object_ok, simp add: wf_state_def)

lemma refcnt_of_cong:
  "heap s' = heap s \<Longrightarrow> static_refcnt s' = static_refcnt s \<Longrightarrow> refcnt_of s' = refcnt_of s"
  by (rule ext) (simp add: refcnt_of_def lookup_def)

lemma refcnt_of_Py_INCREF:
  assumes "is_static a \<or> lookup s a \<noteq> None"
  shows "refcnt_of (Py_INCREF a s) b = refcnt_of s b + (if b = a then 1 else 0)"
    and "violations (Py_INCREF a s) = violations s"
proof -
  show "refcnt_of (Py_INCREF a s) b = refcnt_of s b + (if b = a then 1 else 0)"
  proof (cases "is_static a")
    case True
    then show ?thesis by (simp add: Py_INCREF_def refcnt_of_def lookup_def)
  next
    case False
    with assms obtain rc v where "lookup s a = Some (rc, v)" by auto
    with False show ?thesis by (simp add: Py_INCREF_def refcnt_of_def)
  qed
  show "violations (Py_INCREF a s) = violations s"
  proof (cases "is_static a")
    case True
    then show ?thesis by (simp add: Py_INCREF_def)
  next
    case False
    with assms obtain rc v where "lookup s a = Some (rc, v)" by auto
    with False show ?thesis by (simp add: Py_INCREF_def)
  qed
qed

lemma refcnt_of_Py_DECREF:
  assumes "a \<noteq> NULL" and "is_static a \<or> (lookup s a \<noteq> None \<and> refcnt_of s a \<noteq> 1)"
  shows "refcnt_of (Py_DECREF a s) b = refcnt_of s b - (if b = a then 1 else 0)"
    and "violations (Py_DECREF a s) = violations s"
proof -
  show "refcnt_of (Py_DECREF a s) b = refcnt_of s b - (if b = a then 1 else 0)"
  proof (cases "is_static a")
    case True
    then show ?thesis
      using assms(1) by (simp add: Py_DECREF_def decref_all_static refcnt_of_def lookup_def)
  next
    case False
    with assms(2) obtain rc v where l: "lookup s a = Some (rc, v)" "rc \<noteq> 1"
      by (auto simp: refcnt_of_def)
    then have "map_of (heap s) a = Some (rc, v)" by (simp add: lookup_def)
    from decref_all_keep [OF assms(1) False this l(2), of "[]"] False l show ?thesis
      using assms(1) by (simp add: Py_DECREF_def refcnt_of_def)
  qed
  show "violations (Py_DECREF a s) = violations s"
  proof (cases "is_static a")
    case True
    then show ?thesis
      using assms(1) by (simp add: Py_DECREF_def decref_all_static)
  next
    case False
    with assms(2) obtain rc v where l: "lookup s a = Some (rc, v)" "rc \<noteq> 1"
      by (auto simp: refcnt_of_def)
    then have "map_of (heap s) a = Some (rc, v)" by (simp add: lookup_def)
    from decref_all_keep [OF assms(1) False this l(2), of "[]"] show ?thesis
      using assms(1) by (simp add: Py_DECREF_def)
  qed
qed

lemma refcnt_of_new_object:
  assumes "wf_state s"
  shows "refcnt_of (snd (new_object v s)) b
     = (if alloc_ok s \<and> b = next_addr s then 1 else refcnt_of s b)"
proof -
  from assms have "\<not> is_static (next_addr s)"
    by (simp add: wf_state_def is_static_iff)
  then show ?thesis
    by (cases "alloc_ok s")
       (auto simp: new_object_ok new_object_fails refcnt_of_def lookup_def update_conv')
qed

lemma holds_object_live:
  assumes wf: "wf_state s" and h: "holds_object s a" and nn: "a \<noteq> NULL"
  shows "a < next_addr s" and "is_static a \<or> (lookup s a \<noteq> None \<and> 1 \<le> refcnt_of s a)"
proof -
  show "is_static a \<or> (lookup s a \<noteq> None \<and> 1 \<le> refcnt_of s a)"
    using h nn by (auto simp: holds_object_def refcnt_of_def split: option.splits)
  then show "a < next_addr s"
  proof
    assume "is_static a"
    with wf show ?thesis by (simp add: wf_state_static)
  next
    assume "lookup s a \<noteq> None \<and> 1 \<le> refcnt_of s a"
    then obtain rc v where "lookup s a = Some (rc, v)" by auto
    from wf_state_lookup [OF wf this] show ?thesis by simp
  qed
qed

lemma refcnt_of_positive_live:
  "\<not> is_static a \<Longrightarrow> 1 \<le> refcnt_of s a \<Longrightarrow> lookup s a \<noteq> None"
  by (cases "lookup s a") (simp_all add: refcnt_of_def)

lemma count_list_remove1:
  "count_list (remove1 a xs) b = count_list xs b - (if b = a \<and> a \<in> set xs then 1 else 0)"
  by (induction xs) auto

section \<open>References taken and given back by a resolution attempt\<close>

lemma holding_refl: "wf_state s \<Longrightarrow> holding s [] s"
  by (simp add: holding_def)

lemma holding_same:
  assumes "holding s xs t"
    and "heap t' = heap t" "static_refcnt t' = static_refcnt t" "next_addr t' = next_addr t"
      "violations t' = violations t"
  shows "holding s xs t'"
proof -
  have "wf_state t' = wf_state t" by (rule wf_state_cong [OF assms(2,4)])
  moreover have "refcnt_of t' = refcnt_of t" by (rule refcnt_of_cong [OF assms(2,3)])
  ultimately show ?thesis
    using assms(1,4,5) by (simp add: holding_def)
qed

lemma holding_log_call: "holding s xs t \<Longrightarrow> holding s xs (log_call ev t)"
  by (erule holding_same) simp_all

lemma holding_new_object:
  assumes "holding s xs t"
  shows "holding s xs (snd (new_object v t))"
proof -
  from assms have wf: "wf_state t" and le: "next_addr s \<le> next_addr t"
    by (simp_all add: holding_def)
  have "next_addr t \<le> next_addr (snd (new_object v t))"
    by (cases "alloc_ok t") (simp_all add: new_object_ok new_object_fails)
  with assms le show ?thesis
    by (simp add: holding_def wf_state_new_object [OF wf] refcnt_of_new_object [OF wf])
qed

lemma holding_live:
  assumes wf: "wf_state s" and h: "holding s xs t" and a: "a \<noteq> NULL" "holds_object s a"
  shows "a < next_addr s"
    and "is_static a \<or> (lookup t a \<noteq> None \<and> 1 + int (count_list xs a) \<le> refcnt_of t a)"
proof -
  note live = holds_object_live [OF wf a(2,1)]
  show lt: "a < next_addr s" by (rule live(1))
  from h lt have rc: "refcnt_of t a = refcnt_of s a + int (count_list xs a)"
    by (simp add: holding_def)
  show "is_static a \<or> (lookup t a \<noteq> None \<and> 1 + int (count_list xs a) \<le> refcnt_of t a)"
  proof (cases "is_static a")
    case False
    with live(2) have "1 \<le> refcnt_of s a" by simp
    with rc have "1 + int (count_list xs a) \<le> refcnt_of t a" by simp
    moreover from this have "lookup t a \<noteq> None"
      by (intro refcnt_of_positive_live [OF False]) simp
    ultimately show ?thesis by simp
  qed simp
qed

lemma holding_Py_INCREF:
  assumes wf: "wf_state s" and h: "holding s xs t" and a: "a \<noteq> NULL" "holds_object s a"
  shows "holding s (a # xs) (Py_INCREF a t)"
proof -
  note live = holding_live [OF wf h a]
  from live(2) have l: "is_static a \<or> lookup t a \<noteq> None" by auto
  from h have wft: "wf_state t" by (simp add: holding_def)
  show ?thesis
    using h a
    by (simp add: holding_def wf_state_Py_INCREF [OF wft] refcnt_of_Py_INCREF [OF l])
qed

lemma holding_Py_DECREF:
  assumes wf: "wf_state s" and h: "holding s xs t" and a: "a \<in> set xs"
  shows "holding s (remove1 a xs) (Py_DECREF a t)"
proof -
  from h a have a': "a \<noteq> NULL" "holds_object s a" by (simp_all add: holding_def)
  note live = holding_live [OF wf h a']
  from a have "count_list xs a \<noteq> 0"
    by (simp add: count_list_0_iff)
  then have "1 \<le> count_list xs a" by simp
  with live(2) have l: "is_static a \<or> (lookup t a \<noteq> None \<and> refcnt_of t a \<noteq> 1)" by auto
  from h have wft: "wf_state t" by (simp add: holding_def)
  have sub: "set (remove1 a xs) \<subseteq> set xs" by (rule set_remove1_subset)
  show ?thesis
    unfolding holding_def
  proof (intro conjI allI impI ballI)
    show "wf_state (Py_DECREF a t)" by (rule wf_state_Py_DECREF [OF wft])
    show "next_addr s \<le> next_addr (Py_DECREF a t)" using h by (simp add: holding_def)
    show "violations (Py_DECREF a t) = violations s"
      using h by (simp add: holding_def refcnt_of_Py_DECREF(2) [OF a'(1) l])
    show "refcnt_of (Py_DECREF a t) b = refcnt_of s b + int (count_list (remove1 a xs) b)"
      if "b < next_addr s" for b
    proof -
      from h that have "refcnt_of t b = refcnt_of s b + int (count_list xs b)"
        by (simp add: holding_def)
      with a \<open>1 \<le> count_list xs a\<close> show ?thesis
        by (simp add: refcnt_of_Py_DECREF(1) [OF a'(1) l] count_list_remove1)
    qed
    show "b \<noteq> NULL" if "b \<in> set (remove1 a xs)" for b
      using that sub h by (auto simp: holding_def)
    show "holds_object s b" if "b \<in> set (remove1 a xs)" for b
      using that sub h by (auto simp: holding_def)
  qed
qed

lemma holding_PyErr_SetString: "holding s xs t \<Longrightarrow> holding s xs (PyErr_SetString msg t)"
  by (erule holding_same) simp_all

lemma holding_cache:
  "holding s xs t \<Longrightarrow> holding s xs (t\<lparr>blpapiDatetimeModule := x\<rparr>)"
  "holding s xs t \<Longrightarrow> holding s xs (t\<lparr>datetimeUtil := x\<rparr>)"
  "holding s xs t \<Longrightarrow> holding s xs (t\<lparr>convertToPyTime := x\<rparr>)"
  "holding s xs t \<Longrightarrow> holding s xs (t\<lparr>err := e\<rparr>)"
  by (erule holding_same, simp, simp, simp, simp)+

text \<open>
  A resolution attempt, with memory for the two attribute names and with lookups that
  answer objects one can take a reference to, touches no address that holds no live
  object, and leaves every object with the count it had, plus one for each of the three
  cache entries if it succeeds.
\<close>

lemma init_convertToPyTime_holding:
  assumes wf: "wf_state s" and live: "lookups_live env s"
    and mem: "False \<notin> set (take 2 (alloc_plan s))"
    and m: "m = import_result env ''blpapi.datetime''"
    and u: "u = attr_result env m ''_DatetimeUtil''"
    and f: "f = attr_result env u ''toPyTimeFromInts''"
  shows "holding s (if fst (init_convertToPyTime env s) then [f, u, m] else [])
           (snd (init_convertToPyTime env s))"
proof -
  define s2 where "s2 = (snd (PyImport_ImportModule env ''blpapi.datetime'' s))\<lparr>blpapiDatetimeModule := m\<rparr>"
  define r1 where "r1 = PyUnicode_FromString ''_DatetimeUtil'' s2"
  define r2 where "r2 = PyObject_GetAttr env m (fst r1) (snd r1)"
  define s5 where "s5 = (snd r2)\<lparr>datetimeUtil := fst r2\<rparr>"
  define r3 where "r3 = PyUnicode_FromString ''toPyTimeFromInts'' s5"
  define r4 where "r4 = PyObject_GetAttr env (fst r2) (fst r3) (snd r3)"
  define s8 where "s8 = (snd r4)\<lparr>convertToPyTime := fst r4\<rparr>"
  note steps = init_convertToPyTime_steps [OF m s2_def r1_def r2_def s5_def r3_def r4_def s8_def]
  from live have hm: "holds_object s m"
    and hu: "m \<noteq> NULL \<Longrightarrow> holds_object s u"
    and hf: "m \<noteq> NULL \<Longrightarrow> u \<noteq> NULL \<Longrightarrow> holds_object s f"
    by (simp_all add: lookups_live_def Let_def m u f)
  show ?thesis
  proof (cases "m = NULL")
    case True
    have "holding s [] s2"
      unfolding s2_def
      by (intro holding_cache, rule holding_same [OF holding_refl [OF wf]])
         (simp_all add: PyImport_ImportModule_def Let_def m [symmetric] True)
    with True show ?thesis
      by (simp add: steps holding_PyErr_SetString)
  next
    case mn: False
    have "holding s [m] (Py_INCREF m (log_call (Call_ImportModule ''blpapi.datetime'') s))"
      by (intro holding_Py_INCREF [OF wf] holding_log_call holding_refl [OF wf] mn hm)
    then have h2: "holding s [m] s2"
      unfolding s2_def using mn
      by (simp add: PyImport_ImportModule_def Let_def m [symmetric] holding_cache)
    have p2: "alloc_plan s2 = alloc_plan s"
      by (simp add: s2_def)
    have a2: "alloc_ok s2"
      using mem p2 alloc_ok_take [of 1 s2] by (simp add: numeral_2_eq_2)
    have h3: "holding s [m] (snd r1)"
      unfolding r1_def by (simp add: PyUnicode_FromString_valid holding_new_object [OF h2])
    note g2 = PyObject_GetAttr_new_name [OF a2 utf8_valid_names(1), of env m,
        folded r1_def r2_def, unfolded Let_def u [symmetric]]
    show ?thesis
    proof (cases "u = NULL")
      case True
      have r2n: "fst r2 = NULL" using True by (simp add: g2)
      have "holding s [m] (snd r2)"
        using True by (simp add: g2 holding_cache holding_log_call [OF h3])
      then have "holding s [m] s5"
        unfolding s5_def by (rule holding_cache)
      from holding_Py_DECREF [OF wf this, of m] have "holding s [] (Py_DECREF m s5)" by simp
      with mn r2n show ?thesis
        by (simp add: steps holding_PyErr_SetString)
    next
      case un: False
      have r2u: "fst r2 = u" using un by (simp add: g2)
      have "holding s [u, m] (Py_INCREF u (log_call (Call_GetAttr ''_DatetimeUtil'') (snd r1)))"
        by (intro holding_Py_INCREF [OF wf] holding_log_call h3 un hu [OF mn])
      then have "holding s [u, m] (snd r2)"
        using un by (simp add: g2)
      then have h5: "holding s [u, m] s5"
        unfolding s5_def by (rule holding_cache)
      have p5: "alloc_plan s5 = tl (alloc_plan s)"
        using un by (simp add: s5_def g2 r1_def p2)
      have a5: "alloc_ok s5"
        using alloc_plan_take_tl [of 1 "alloc_plan s"] mem p5 alloc_ok_take [of 0 s5]
        by (simp add: numeral_2_eq_2)
      have h6: "holding s [u, m] (snd r3)"
        unfolding r3_def by (simp add: PyUnicode_FromString_valid holding_new_object [OF h5])
      note g4 = PyObject_GetAttr_new_name [OF a5 utf8_valid_names(2), of env u,
          folded r3_def, folded r2u, folded r4_def, unfolded Let_def r2u f [symmetric]]
      show ?thesis
      proof (cases "f = NULL")
        case True
        have r4n: "fst r4 = NULL" using True by (simp add: g4)
        have "holding s [u, m] (snd r4)"
          using True by (simp add: g4 holding_cache holding_log_call [OF h6])
        then have "holding s [u, m] s8"
          unfolding s8_def by (rule holding_cache)
        from holding_Py_DECREF [OF wf this, of m] have "holding s (remove1 m [u, m]) (Py_DECREF m s8)"
          by simp
        moreover have "remove1 m [u, m] = [u]" by simp
        ultimately have "holding s [u] (Py_DECREF m s8)" by simp
        from holding_Py_DECREF [OF wf this, of u]
        have "holding s [] (Py_DECREF u (Py_DECREF m s8))"
          by simp
        with mn un r2u r4n show ?thesis
          by (simp add: steps holding_PyErr_SetString)
      next
        case fn: False
        have r4f: "fst r4 = f" using fn by (simp add: g4)
        have "holding s [f, u, m] (Py_INCREF f (log_call (Call_GetAttr ''toPyTimeFromInts'') (snd r3)))"
          by (intro holding_Py_INCREF [OF wf] holding_log_call h6 fn hf [OF mn un])
        then have "holding s [f, u, m] (snd r4)"
          using fn by (simp add: g4)
        then have "holding s [f, u, m] s8"
          unfolding s8_def by (rule holding_cache)
        with mn un fn r2u r4f show ?thesis
          by (simp add: steps)
      qed
    qed
  qed
qed

lemma getScalarValue_datetime_unresolved:
  assumes "convertToPyTime s = NULL" and "\<not> fst (init_convertToPyTime env s)"
  shows "getScalarValue_datetime env e i s = (NULL, snd (init_convertToPyTime env s))"
  using assms by (simp add: getScalarValue_datetime_def split_beta)

lemma PyObject_CallFunction_violations:
  "lookup s callable \<noteq> None \<Longrightarrow>
   violations (snd (PyObject_CallFunction env callable args s)) = violations s"
  by (auto simp: PyObject_CallFunction_def Let_def)

text \<open>
  A conversion of a timestamp that starts from a state without a resolved helper, with
  lookups that succeed and answer live objects, the function a heap object, and memory
  for the two attribute names: it touches no address that holds no live object.
\<close>

lemma getScalarValue_datetime_no_violation:
  assumes wf: "wf_state s" and cold: "convertToPyTime s = NULL"
    and live: "lookups_live env s" and mem: "False \<notin> set (take 2 (alloc_plan s))"
    and m: "m = import_result env ''blpapi.datetime''" "m \<noteq> NULL"
    and u: "u = attr_result env m ''_DatetimeUtil''" "u \<noteq> NULL"
    and f: "f = attr_result env u ''toPyTimeFromInts''" "f \<noteq> NULL" "\<not> is_static f"
  shows "violations (snd (getScalarValue_datetime env e i s)) = violations s"
proof -
  let ?r0 = "init_convertToPyTime env s"
  let ?s2 = "log_call (Call_getValueAsHighPrecisionDatetime i) (snd ?r0)"
  note ok = init_convertToPyTime_succeeds [OF cold m u f(1,2) mem]
  from ok have fst: "fst ?r0" and cf: "convertToPyTime (snd ?r0) = f" by simp_all
  from init_convertToPyTime_holding [OF wf live mem m(1) u(1) f(1)] fst
  have h: "holding s [f, u, m] (snd ?r0)" by simp
  then have v: "violations (snd ?r0) = violations s" by (simp add: holding_def)
  from live m u f have "holds_object s f"
    by (simp add: lookups_live_def Let_def)
  from holding_live(2) [OF wf h f(2) this] f(3) have "lookup (snd ?r0) f \<noteq> None" by simp
  then have callable: "lookup ?s2 (convertToPyTime ?s2) \<noteq> None"
    by (simp add: cf)
  have r0: "?r0 = (if convertToPyTime s = NULL then init_convertToPyTime env s else (True, s))"
    using cold by simp
  show ?thesis
    using fst v PyObject_CallFunction_violations [OF callable]
    by (simp add: getScalarValue_datetime_cases [OF r0] Let_def split: option.splits)
qed

text \<open>
  C5. The helper is resolved lazily and at most once: in a state that holds a resolved
  helper, no conversion of any element performs a lookup or touches the three cached
  pointers. In a state that holds none, an attempt goes through the lookup of the module,
  of the utility class and of the function; it succeeds exactly when it leaves a resolved
  helper behind; it fails whenever one of the three lookups fails, and then the conversion
  answers \<open>NULL\<close> with an error set and the state still holds no resolved helper, so
  that the next conversion starts the whole resolution again: with lookups that now
  succeed (and memory for the two attribute names), that next attempt succeeds, caches
  the three objects and performs exactly the three lookups.

  Nothing is left behind that a later attempt could trip over. When the lookups answer
  objects that a reference can be taken to and there is memory for the two attribute
  names, an attempt accesses no address that holds no live object, and it leaves every
  object that existed before with the reference count it had: unchanged if the attempt
  failed (each reference taken on the way has been given back exactly once), and one more
  per cache entry if it succeeded. The same then holds of the attempt that follows a
  failed one, and the whole conversion of a timestamp that follows a failed attempt
  accesses no address that holds no live object either.
\<close>

theorem convertToPyTime_resolved_once:
  assumes wf: "wf_state s"
  shows
    "(convertToPyTime s \<noteq> NULL \<longrightarrow>
        same_resolution s (snd (blpapi_Element_toPy env e s))
        \<and> same_resolution s (snd (getScalarValue_datetime env e i s)))
     \<and> (convertToPyTime s = NULL \<longrightarrow>
          (let r = init_convertToPyTime env s; ok = fst r; s' = snd r;
               m = import_result env ''blpapi.datetime'';
               u = attr_result env m ''_DatetimeUtil'';
               f = attr_result env u ''toPyTimeFromInts'';
               r2 = init_convertToPyTime env2 s';
               m2 = import_result env2 ''blpapi.datetime'';
               u2 = attr_result env2 m2 ''_DatetimeUtil'';
               f2 = attr_result env2 u2 ''toPyTimeFromInts''
           in ok = (convertToPyTime s' \<noteq> NULL)
              \<and> (m = NULL \<or> u = NULL \<or> f = NULL \<longrightarrow> \<not> ok)
              \<and> (\<not> ok \<longrightarrow> err s' \<noteq> None \<and> getScalarValue_datetime env e i s = (NULL, s'))
              \<and> (m \<noteq> NULL \<and> u \<noteq> NULL \<and> f \<noteq> NULL \<and> False \<notin> set (take 2 (alloc_plan s)) \<longrightarrow>
                   ok \<and> blpapiDatetimeModule s' = m \<and> datetimeUtil s' = u \<and> convertToPyTime s' = f
                   \<and> lookup_events s'
                       = lookup_events s @ [Call_ImportModule ''blpapi.datetime'',
                           Call_GetAttr ''_DatetimeUtil'', Call_GetAttr ''toPyTimeFromInts''])
              \<and> (\<not> ok \<and> m2 \<noteq> NULL \<and> u2 \<noteq> NULL \<and> f2 \<noteq> NULL
                    \<and> False \<notin> set (take 2 (alloc_plan s')) \<longrightarrow>
                   fst r2 \<and> blpapiDatetimeModule (snd r2) = m2 \<and> datetimeUtil (snd r2) = u2
                   \<and> convertToPyTime (snd r2) = f2
                   \<and> lookup_events (snd r2)
                       = lookup_events s' @ [Call_ImportModule ''blpapi.datetime'',
                           Call_GetAttr ''_DatetimeUtil'', Call_GetAttr ''toPyTimeFromInts''])
              \<and> (lookups_live env s \<and> False \<notin> set (take 2 (alloc_plan s)) \<longrightarrow>
                   wf_state s' \<and> violations s' = violations s
                   \<and> (\<forall>a. a < next_addr s \<longrightarrow>
                          refcnt_of s' a
                            = refcnt_of s a + int (count_list (if ok then [f, u, m] else []) a)))
              \<and> (lookups_live env s \<and> False \<notin> set (take 2 (alloc_plan s)) \<and> \<not> ok
                    \<and> lookups_live env2 s' \<and> False \<notin> set (take 2 (alloc_plan s')) \<longrightarrow>
                   violations (snd r2) = violations s
                   \<and> (\<forall>a. a < next_addr s \<longrightarrow>
                          refcnt_of (snd r2) a
                            = refcnt_of s a
                              + int (count_list (if fst r2 then [f2, u2, m2] else []) a)))
              \<and> (lookups_live env s \<and> False \<notin> set (take 2 (alloc_plan s)) \<and> \<not> ok
                    \<and> lookups_live env2 s' \<and> False \<notin> set (take 2 (alloc_plan s'))
                    \<and> m2 \<noteq> NULL \<and> u2 \<noteq> NULL \<and> f2 \<noteq> NULL \<and> \<not> is_static f2 \<longrightarrow>
                   violations (snd (getScalarValue_datetime env2 e i s')) = violations s)))"
proof (intro conjI impI)
  show "same_resolution s (snd (blpapi_Element_toPy env e s))"
    by (rule blpapi_Element_toPy_same_resolution)
next
  assume "convertToPyTime s \<noteq> NULL"
  then show "same_resolution s (snd (getScalarValue_datetime env e i s))"
    by (rule getScalarValue_datetime_warm)
next
  assume cold: "convertToPyTime s = NULL"
  let ?r = "init_convertToPyTime env s"
  have ok: "fst ?r = (convertToPyTime (snd ?r) \<noteq> NULL)"
    by (rule init_convertToPyTime_outcome(1) [OF cold])
  have fails: "\<not> fst ?r"
    if "import_result env ''blpapi.datetime'' = NULL
      \<or> attr_result env (import_result env ''blpapi.datetime'') ''_DatetimeUtil'' = NULL
      \<or> attr_result env (attr_result env (import_result env ''blpapi.datetime'') ''_DatetimeUtil'')
           ''toPyTimeFromInts'' = NULL"
    using that by (rule init_convertToPyTime_lookup_fails [OF wf])
  have failed: "err (snd ?r) \<noteq> None \<and> getScalarValue_datetime env e i s = (NULL, snd ?r)"
    if "\<not> fst ?r"
    using that init_convertToPyTime_outcome(2) [OF cold that]
      getScalarValue_datetime_unresolved [OF cold that]
    by simp
  note first = init_convertToPyTime_succeeds [OF cold refl _ refl _ refl]
  have retry: "fst (init_convertToPyTime env2 (snd ?r))
      \<and> blpapiDatetimeModule (snd (init_convertToPyTime env2 (snd ?r)))
          = import_result env2 ''blpapi.datetime''
      \<and> datetimeUtil (snd (init_convertToPyTime env2 (snd ?r)))
          = attr_result env2 (import_result env2 ''blpapi.datetime'') ''_DatetimeUtil''
      \<and> convertToPyTime (snd (init_convertToPyTime env2 (snd ?r)))
          = attr_result env2 (attr_result env2 (import_result env2 ''blpapi.datetime'')
              ''_DatetimeUtil'') ''toPyTimeFromInts''
      \<and> lookup_events (snd (init_convertToPyTime env2 (snd ?r)))
          = lookup_events (snd ?r) @ [Call_ImportModule ''blpapi.datetime'',
              Call_GetAttr ''_DatetimeUtil'', Call_GetAttr ''toPyTimeFromInts'']"
    if "\<not> fst ?r"
      and "import_result env2 ''blpapi.datetime'' \<noteq> NULL"
      and "attr_result env2 (import_result env2 ''blpapi.datetime'') ''_DatetimeUtil'' \<noteq> NULL"
      and "attr_result env2 (attr_result env2 (import_result env2 ''blpapi.datetime'')
              ''_DatetimeUtil'') ''toPyTimeFromInts'' \<noteq> NULL"
      and "False \<notin> set (take 2 (alloc_plan (snd ?r)))"
  proof -
    have "convertToPyTime (snd ?r) = NULL"
      using ok that(1) by simp
    then show ?thesis
      using that(2-5) by (intro init_convertToPyTime_succeeds) simp_all
  qed
  have first_balance: "holding s (if fst ?r then
          [attr_result env (attr_result env (import_result env ''blpapi.datetime'') ''_DatetimeUtil'')
             ''toPyTimeFromInts'',
           attr_result env (import_result env ''blpapi.datetime'') ''_DatetimeUtil'',
           import_result env ''blpapi.datetime''] else []) (snd ?r)"
    if "lookups_live env s \<and> False \<notin> set (take 2 (alloc_plan s))"
    using that by (intro init_convertToPyTime_holding [OF wf _ _ refl refl refl]) simp_all
  have retry_balance: "holding (snd ?r) (if fst (init_convertToPyTime env2 (snd ?r)) then
          [attr_result env2 (attr_result env2 (import_result env2 ''blpapi.datetime'') ''_DatetimeUtil'')
             ''toPyTimeFromInts'',
           attr_result env2 (import_result env2 ''blpapi.datetime'') ''_DatetimeUtil'',
           import_result env2 ''blpapi.datetime''] else []) (snd (init_convertToPyTime env2 (snd ?r)))
        \<and> holding s [] (snd ?r)"
    if "lookups_live env s \<and> False \<notin> set (take 2 (alloc_plan s)) \<and> \<not> fst ?r
        \<and> lookups_live env2 (snd ?r) \<and> False \<notin> set (take 2 (alloc_plan (snd ?r)))"
  proof -
    from first_balance that have h: "holding s [] (snd ?r)" by simp
    then have "wf_state (snd ?r)" by (simp add: holding_def)
    from init_convertToPyTime_holding [OF this _ _ refl refl refl, of env2] that h
    show ?thesis by simp
  qed
  have retry_counts: "violations (snd (init_convertToPyTime env2 (snd ?r))) = violations s
        \<and> (\<forall>a. a < next_addr s \<longrightarrow>
              refcnt_of (snd (init_convertToPyTime env2 (snd ?r))) a
                = refcnt_of s a
                  + int (count_list (if fst (init_convertToPyTime env2 (snd ?r)) then
          [attr_result env2 (attr_result env2 (import_result env2 ''blpapi.datetime'') ''_DatetimeUtil'')
             ''toPyTimeFromInts'',
           attr_result env2 (import_result env2 ''blpapi.datetime'') ''_DatetimeUtil'',
           import_result env2 ''blpapi.datetime''] else []) a))"
    if "lookups_live env s \<and> False \<notin> set (take 2 (alloc_plan s)) \<and> \<not> fst ?r
        \<and> lookups_live env2 (snd ?r) \<and> False \<notin> set (take 2 (alloc_plan (snd ?r)))"
  proof (intro conjI allI impI)
    note h = retry_balance [OF that]
    show "violations (snd (init_convertToPyTime env2 (snd ?r))) = violations s"
      using h by (simp add: holding_def)
    fix a
    assume a: "a < next_addr s"
    from h have "next_addr s \<le> next_addr (snd ?r)" by (simp add: holding_def)
    with a have a': "a < next_addr (snd ?r)" by simp
    from h a have "refcnt_of (snd ?r) a = refcnt_of s a" by (simp add: holding_def)
    moreover from h a' have "refcnt_of (snd (init_convertToPyTime env2 (snd ?r))) a
        = refcnt_of (snd ?r) a
          + int (count_list (if fst (init_convertToPyTime env2 (snd ?r)) then
          [attr_result env2 (attr_result env2 (import_result env2 ''blpapi.datetime'') ''_DatetimeUtil'')
             ''toPyTimeFromInts'',
           attr_result env2 (import_result env2 ''blpapi.datetime'') ''_DatetimeUtil'',
           import_result env2 ''blpapi.datetime''] else []) a)"
      unfolding holding_def by blast
    ultimately show "refcnt_of (snd (init_convertToPyTime env2 (snd ?r))) a
        = refcnt_of s a
          + int (count_list (if fst (init_convertToPyTime env2 (snd ?r)) then
          [attr_result env2 (attr_result env2 (import_result env2 ''blpapi.datetime'') ''_DatetimeUtil'')
             ''toPyTimeFromInts'',
           attr_result env2 (import_result env2 ''blpapi.datetime'') ''_DatetimeUtil'',
           import_result env2 ''blpapi.datetime''] else []) a)"
      by simp
  qed
  have later: "violations (snd (getScalarValue_datetime env2 e i (snd ?r))) = violations s"
    if "lookups_live env s \<and> False \<notin> set (take 2 (alloc_plan s)) \<and> \<not> fst ?r
        \<and> lookups_live env2 (snd ?r) \<and> False \<notin> set (take 2 (alloc_plan (snd ?r)))
        \<and> import_result env2 ''blpapi.datetime'' \<noteq> NULL
        \<and> attr_result env2 (import_result env2 ''blpapi.datetime'') ''_DatetimeUtil'' \<noteq> NULL
        \<and> attr_result env2 (attr_result env2 (import_result env2 ''blpapi.datetime'')
              ''_DatetimeUtil'') ''toPyTimeFromInts'' \<noteq> NULL
        \<and> \<not> is_static (attr_result env2 (attr_result env2 (import_result env2 ''blpapi.datetime'')
              ''_DatetimeUtil'') ''toPyTimeFromInts'')"
  proof -
    from first_balance that have h: "holding s [] (snd ?r)" by simp
    then have wf': "wf_state (snd ?r)" and v: "violations (snd ?r) = violations s"
      by (simp_all add: holding_def)
    have cold': "convertToPyTime (snd ?r) = NULL"
      using ok that by simp
    from getScalarValue_datetime_no_violation [OF wf' cold' _ _ refl _ refl _ refl, of env2 e i]
      that v
    show ?thesis by simp
  qed
  show "let r = init_convertToPyTime env s; ok = fst r; s' = snd r;
               m = import_result env ''blpapi.datetime'';
               u = attr_result env m ''_DatetimeUtil'';
               f = attr_result env u ''toPyTimeFromInts'';
               r2 = init_convertToPyTime env2 s';
               m2 = import_result env2 ''blpapi.datetime'';
               u2 = attr_result env2 m2 ''_DatetimeUtil'';
               f2 = attr_result env2 u2 ''toPyTimeFromInts''
           in ok = (convertToPyTime s' \<noteq> NULL)
              \<and> (m = NULL \<or> u = NULL \<or> f = NULL \<longrightarrow> \<not> ok)
              \<and> (\<not> ok \<longrightarrow> err s' \<noteq> None \<and> getScalarValue_datetime env e i s = (NULL, s'))
              \<and> (m \<noteq> NULL \<and> u \<noteq> NULL \<and> f \<noteq> NULL \<and> False \<notin> set (take 2 (alloc_plan s)) \<longrightarrow>
                   ok \<and> blpapiDatetimeModule s' = m \<and> datetimeUtil s' = u \<and> convertToPyTime s' = f
                   \<and> lookup_events s'
                       = lookup_events s @ [Call_ImportModule ''blpapi.datetime'',
                           Call_GetAttr ''_DatetimeUtil'', Call_GetAttr ''toPyTimeFromInts''])
              \<and> (\<not> ok \<and> m2 \<noteq> NULL \<and> u2 \<noteq> NULL \<and> f2 \<noteq> NULL
                    \<and> False \<notin> set (take 2 (alloc_plan s')) \<longrightarrow>
                   fst r2 \<and> blpapiDatetimeModule (snd r2) = m2 \<and> datetimeUtil (snd r2) = u2
                   \<and> convertToPyTime (snd r2) = f2
                   \<and> lookup_events (snd r2)
                       = lookup_events s' @ [Call_ImportModule ''blpapi.datetime'',
                           Call_GetAttr ''_DatetimeUtil'', Call_GetAttr ''toPyTimeFromInts''])
              \<and> (lookups_live env s \<and> False \<notin> set (take 2 (alloc_plan s)) \<longrightarrow>
                   wf_state s' \<and> violations s' = violations s
                   \<and> (\<forall>a. a < next_addr s \<longrightarrow>
                          refcnt_of s' a
                            = refcnt_of s a + int (count_list (if ok then [f, u, m] else []) a)))
              \<and> (lookups_live env s \<and> False \<notin> set (take 2 (alloc_plan s)) \<and> \<not> ok
                    \<and> lookups_live env2 s' \<and> False \<notin> set (take 2 (alloc_plan s')) \<longrightarrow>
                   violations (snd r2) = violations s
                   \<and> (\<forall>a. a < next_addr s \<longrightarrow>
                          refcnt_of (snd r2) a
                            = refcnt_of s a
                              + int (count_list (if fst r2 then [f2, u2, m2] else []) a)))
              \<and> (lookups_live env s \<and> False \<notin> set (take 2 (alloc_plan s)) \<and> \<not> ok
                    \<and> lookups_live env2 s' \<and> False \<notin> set (take 2 (alloc_plan s'))
                    \<and> m2 \<noteq> NULL \<and> u2 \<noteq> NULL \<and> f2 \<noteq> NULL \<and> \<not> is_static f2 \<longrightarrow>
                   violations (snd (getScalarValue_datetime env2 e i s')) = violations s)"
    unfolding Let_def
  proof (intro conjI impI, goal_cases)
    case 1
    show ?case by (rule ok)
  next
    case 2
    then show ?case by (rule fails)
  next
    case 3
    then show ?case using failed by simp
  next
    case 4
    then show ?case using failed by simp
  next
    case 5
    then show ?case using first by blast
  next
    case 6
    then show ?case using first by blast
  next
    case 7
    then show ?case using first by blast
  next
    case 8
    then show ?case using first by blast
  next
    case 9
    then show ?case using first by blast
  next
    case 10
    then show ?case using retry by blast
  next
    case 11
    then show ?case using retry by blast
  next
    case 12
    then show ?case using retry by blast
  next
    case 13
    then show ?case using retry by blast
  next
    case 14
    then show ?case using retry by blast
  next
    case 15
    from first_balance [OF this] show ?case by (simp add: holding_def)
  next
    case 16
    from first_balance [OF this] show ?case by (simp add: holding_def)
  next
    case 17
    from first_balance [OF this] show ?case unfolding holding_def by blast
  next
    case 18
    from retry_counts [OF this] show ?case by (rule conjunct1)
  next
    case 19
    from retry_counts [OF this] show ?case by (rule conjunct2)
  next
    case 20
    from later [OF this] show ?case .
  qed
qed

lemma init_convertToPyTime_alloc_plan:
  "alloc_plan s = [] \<Longrightarrow> alloc_plan (snd (init_convertToPyTime env s)) = []"
  by (simp add: init_convertToPyTime_steps [OF refl refl refl refl refl refl refl refl])

lemma example_resolution_facts:
  "lookups_live broken_env example_state"
  "lookups_live example_env (snd (init_convertToPyTime broken_env example_state))"
  "False \<notin> set (take 2 (alloc_plan example_state))"
  "refcnt_of example_state 266 = 1" "refcnt_of example_state 267 = 1"
  "refcnt_of example_state 268 = 1"
  "violations example_state = []" "next_addr example_state = 269"
  "\<not> is_static 268" "(268 :: nat) \<noteq> NULL" "(267 :: nat) \<noteq> NULL" "(266 :: nat) \<noteq> NULL"
  by code_simp+

theorem convertToPyTime_resolved_once_witness:
  "wf_state example_state
   \<and> \<not> fst (init_convertToPyTime broken_env example_state)
   \<and> err (snd (init_convertToPyTime broken_env example_state)) \<noteq> None
   \<and> violations (snd (init_convertToPyTime broken_env example_state)) = []
   \<and> refcnt_of (snd (init_convertToPyTime broken_env example_state)) 266 = 1
   \<and> refcnt_of (snd (init_convertToPyTime broken_env example_state)) 267 = 1
   \<and> fst (init_convertToPyTime example_env (snd (init_convertToPyTime broken_env example_state)))
   \<and> convertToPyTime
        (snd (init_convertToPyTime example_env (snd (init_convertToPyTime broken_env example_state))))
       = 268
   \<and> violations
        (snd (init_convertToPyTime example_env (snd (init_convertToPyTime broken_env example_state))))
       = []
   \<and> refcnt_of
        (snd (init_convertToPyTime example_env (snd (init_convertToPyTime broken_env example_state))))
        268 = 2
   \<and> violations
        (snd (getScalarValue_datetime example_env (datetime_element ''t'' full_timestamp) 0
               (snd (init_convertToPyTime broken_env example_state))))
       = []
   \<and> lookup_events
        (snd (blpapi_Element_toPy example_env (datetime_element ''t'' full_timestamp) warm_state))
       = []"
proof -
  let ?s' = "snd (init_convertToPyTime broken_env example_state)"
  let ?s'' = "snd (init_convertToPyTime example_env ?s')"
  have wf: "wf_state example_state" and wfw: "wf_state warm_state"
    by (simp_all add: wf_state_def example_state_def warm_state_def)
  have cold: "convertToPyTime example_state = NULL"
    and warm: "convertToPyTime warm_state \<noteq> NULL"
    and ev: "lookup_events warm_state = []"
    by (simp_all add: example_state_def warm_state_def NULL_def lookup_events_def)
  have broken: "attr_result broken_env
      (attr_result broken_env (import_result broken_env ''blpapi.datetime'') ''_DatetimeUtil'')
      ''toPyTimeFromInts'' = NULL"
    by (simp add: broken_env_def)
  have good: "import_result example_env ''blpapi.datetime'' = 266"
    "attr_result example_env 266 ''_DatetimeUtil'' = 267"
    "attr_result example_env 267 ''toPyTimeFromInts'' = 268"
    by (simp_all add: example_env_def)
  have plan: "alloc_plan ?s' = []"
    by (rule init_convertToPyTime_alloc_plan) (simp add: example_state_def)
  note facts = example_resolution_facts
  note cold_case = convertToPyTime_resolved_once [OF wf, where env = broken_env
      and ?env2.0 = example_env and e = "datetime_element ''t'' full_timestamp" and i = 0,
      unfolded Let_def, THEN conjunct2, rule_format, OF cold]
  note warm_case = convertToPyTime_resolved_once [OF wfw, where env = example_env
      and e = "datetime_element ''t'' full_timestamp", THEN conjunct1, rule_format, OF warm]
  have failed: "\<not> fst (init_convertToPyTime broken_env example_state)"
    using cold_case broken by blast
  have 1: "lookup_events
        (snd (blpapi_Element_toPy example_env (datetime_element ''t'' full_timestamp) warm_state))
       = []"
    using warm_case warm ev by (simp add: same_resolution_def)
  have 2: "err ?s' \<noteq> None"
    using cold_case failed by blast
  have 3: "fst (init_convertToPyTime example_env ?s') \<and> convertToPyTime ?s'' = 268"
    using cold_case failed plan good by (simp add: NULL_def)
  from cold_case facts(1,3) failed
  have first: "violations ?s' = violations example_state
      \<and> (\<forall>a. a < next_addr example_state \<longrightarrow> refcnt_of ?s' a = refcnt_of example_state a)"
    by simp
  then have 4: "violations ?s' = [] \<and> refcnt_of ?s' 266 = 1 \<and> refcnt_of ?s' 267 = 1"
    by (simp add: facts)
  from cold_case facts(1,2,3) failed plan 3
  have second: "violations ?s'' = violations example_state
      \<and> (\<forall>a. a < next_addr example_state \<longrightarrow>
            refcnt_of ?s'' a = refcnt_of example_state a + int (count_list [268, 267, 266] a))"
    by (simp add: good)
  then have 5: "violations ?s'' = [] \<and> refcnt_of ?s'' 268 = 2"
    by (simp add: facts)
  from cold_case facts(1,2,3) failed plan
  have 6: "violations
        (snd (getScalarValue_datetime example_env (datetime_element ''t'' full_timestamp) 0 ?s'))
       = []"
    by (simp add: good facts)
  from wf failed 1 2 3 4 5 6 show ?thesis by simp
qed

section \<open>The top-level dispatcher\<close>

lemma ERROR_result [simp]:
  "fst (complexElementToPy_ERROR d sp s) = NULL"
  "fst (arrayElementToPy_ERROR l pv s) = NULL"
  by (simp_all add: complexElementToPy_ERROR_def arrayElementToPy_ERROR_def Let_def)

lemma complexElementToPy_loop_result:
  "fst (complexElementToPy_loop env subs i d sp s) = d
   \<or> fst (complexElementToPy_loop env subs i d sp s) = NULL"
proof (induction subs arbitrary: i sp s)
  case Nil
  show ?case by simp
next
  case (Cons got rest)
  show ?case
    using Cons.IH
    by (auto simp: complexElementToPy_loop_unfold Let_def split: option.splits prod.splits)
qed

lemma arrayElementToPy_complex_loop_result:
  "fst (arrayElementToPy_complex_loop env slots i l pv s) = l
   \<or> fst (arrayElementToPy_complex_loop env slots i l pv s) = NULL"
proof (induction slots arbitrary: i pv s)
  case Nil
  show ?case by simp
next
  case (Cons slot rest)
  show ?case
    using Cons.IH
    by (auto simp: arrayElementToPy_complex_loop_unfold Let_def split: option.splits prod.splits)
qed

lemma arrayElementToPy_scalar_loop_result:
  "fst (arrayElementToPy_scalar_loop env e idxs l s) = l
   \<or> fst (arrayElementToPy_scalar_loop env e idxs l s) = NULL"
proof (induction idxs arbitrary: s)
  case Nil
  show ?case by simp
next
  case (Cons i rest)
  show ?case
    using Cons.IH
    by (auto simp: arrayElementToPy_scalar_loop_unfold Let_def split: prod.splits)
qed

lemma new_object_addr:
  "fst (new_object v s) = next_addr s \<or> fst (new_object v s) = NULL"
  by (cases "alloc_ok s") (simp_all add: new_object_ok new_object_fails)

lemma complexElementToPy_result:
  "fst (complexElementToPy env e s) = next_addr s \<or> fst (complexElementToPy env e s) = NULL"
  using complexElementToPy_loop_result [of env "subElements e" 0 "fst (PyDict_New s)" NULL "snd (PyDict_New s)"]
    new_object_addr [of "PyDict []" s]
  by (auto simp: complexElementToPy_unfold PyDict_New_def split_beta Let_def)

lemma arrayElementToPy_result:
  "fst (arrayElementToPy env e s) = next_addr s \<or> fst (arrayElementToPy env e s) = NULL"
  using
    arrayElementToPy_complex_loop_result [of env "valueSlots e" 0
      "fst (PyList_New (blpapi_Element_numValues e) s)" NULL
      "log_call Call_isComplexTypeOfDefinition (snd (PyList_New (blpapi_Element_numValues e) s))"]
    arrayElementToPy_scalar_loop_result [of env e "[0..<blpapi_Element_numValues e]"
      "fst (PyList_New (blpapi_Element_numValues e) s)"
      "log_call Call_isComplexTypeOfDefinition (snd (PyList_New (blpapi_Element_numValues e) s))"]
    new_object_addr [of "PyList (replicate (blpapi_Element_numValues e) NULL)" s]
  by (auto simp: arrayElementToPy_unfold PyList_New_def split_beta Let_def)

lemma arrayElementToPy_empty:
  assumes "blpapi_Element_numValues e = 0" and "alloc_ok s" and "next_addr s \<noteq> NULL"
  shows "fst (arrayElementToPy env e s) = next_addr s"
    and "lookup (snd (arrayElementToPy env e s)) (next_addr s) = Some (1, PyList [])"
  using assms
  by (auto simp: arrayElementToPy_unfold PyList_New_def new_object_ok Let_def lookup_def
        update_conv' blpapi_Element_numValues_def)

lemma complexElementToPy_empty:
  assumes "blpapi_Element_numElements e = 0" and "alloc_ok s" and "next_addr s \<noteq> NULL"
  shows "fst (complexElementToPy env e s) = next_addr s"
    and "lookup (snd (complexElementToPy env e s)) (next_addr s) = Some (1, PyDict [])"
  using assms
  by (auto simp: complexElementToPy_unfold PyDict_New_def new_object_ok Let_def lookup_def
        update_conv' blpapi_Element_numElements_def)

text \<open>
  C2. The dispatcher asks whether the element is complex, then whether it is an array,
  then whether it is null, in this order: a complex element goes to the record converter,
  any other array to the array converter, any other null element becomes \<open>None\<close> with no
  call of the datatype accessor or of a value accessor logged, and what remains is
  converted as a scalar at index 0. So a complex or array element never becomes the scalar
  \<open>None\<close>, null or not: a null array without values becomes a new empty list and a null
  record without sub-elements a new empty dictionary (memory permitting).
\<close>

theorem blpapi_Element_toPy_dispatch:
  assumes fresh: "3 < next_addr s"
  shows
    "(blpapi_Element_isComplexType e \<longrightarrow>
        blpapi_Element_toPy env e s = complexElementToPy env e s)
     \<and> (\<not> blpapi_Element_isComplexType e \<and> blpapi_Element_isArray e \<longrightarrow>
          blpapi_Element_toPy env e s = arrayElementToPy env e s)
     \<and> (\<not> blpapi_Element_isComplexType e \<and> \<not> blpapi_Element_isArray e
          \<and> blpapi_Element_isNull e \<longrightarrow>
          blpapi_Element_toPy env e s = Py_RETURN_NONE s
          \<and> fst (blpapi_Element_toPy env e s) = Py_None
          \<and> trace (snd (blpapi_Element_toPy env e s)) = trace s)
     \<and> (\<not> blpapi_Element_isComplexType e \<and> \<not> blpapi_Element_isArray e
          \<and> \<not> blpapi_Element_isNull e \<longrightarrow>
          blpapi_Element_toPy env e s = getScalarValue env e 0 s)
     \<and> (blpapi_Element_isComplexType e \<or> blpapi_Element_isArray e \<longrightarrow>
          fst (blpapi_Element_toPy env e s) \<noteq> Py_None)
     \<and> (\<not> blpapi_Element_isComplexType e \<and> blpapi_Element_isArray e \<and> blpapi_Element_isNull e
          \<and> blpapi_Element_numValues e = 0 \<and> alloc_ok s \<longrightarrow>
          fst (blpapi_Element_toPy env e s) = next_addr s
          \<and> lookup (snd (blpapi_Element_toPy env e s)) (next_addr s) = Some (1, PyList []))
     \<and> (blpapi_Element_isComplexType e \<and> blpapi_Element_isNull e
          \<and> blpapi_Element_numElements e = 0 \<and> alloc_ok s \<longrightarrow>
          fst (blpapi_Element_toPy env e s) = next_addr s
          \<and> lookup (snd (blpapi_Element_toPy env e s)) (next_addr s) = Some (1, PyDict []))"
proof -
  have not_none: "next_addr s \<noteq> Py_None" "NULL \<noteq> Py_None" "next_addr s \<noteq> NULL"
    using fresh by (simp_all add: Py_None_def NULL_def)
  have rec_result: "fst (complexElementToPy env e s) \<noteq> Py_None"
    using complexElementToPy_result [of env e s] not_none by auto
  have arr_result: "fst (arrayElementToPy env e s) \<noteq> Py_None"
    using arrayElementToPy_result [of env e s] not_none by auto
  show ?thesis
    using rec_result arr_result not_none(3)
    by (auto simp: blpapi_Element_toPy.simps arrayElementToPy_empty complexElementToPy_empty)
qed

theorem blpapi_Element_toPy_dispatch_witness:
  "3 < next_addr example_state
   \<and> blpapi_Element_toPy example_env null_scalar example_state = Py_RETURN_NONE example_state
   \<and> trace (snd (blpapi_Element_toPy example_env null_scalar example_state)) = []
   \<and> fst (blpapi_Element_toPy example_env null_array example_state) = 269
   \<and> lookup (snd (blpapi_Element_toPy example_env null_array example_state)) 269 = Some (1, PyList [])
   \<and> fst (blpapi_Element_toPy example_env null_record example_state) = 269
   \<and> lookup (snd (blpapi_Element_toPy example_env null_record example_state)) 269 = Some (1, PyDict [])
   \<and> blpapi_Element_toPy example_env (int64_element ''n'' 42) example_state
       = getScalarValue example_env (int64_element ''n'' 42) 0 example_state"
proof -
  have fresh: "3 < next_addr example_state"
    by (simp add: example_state_fields)
  show ?thesis
    using fresh
      blpapi_Element_toPy_dispatch [OF fresh, of null_scalar example_env]
      blpapi_Element_toPy_dispatch [OF fresh, of null_array example_env]
      blpapi_Element_toPy_dispatch [OF fresh, of null_record example_env]
      blpapi_Element_toPy_dispatch [OF fresh, of "int64_element ''n'' 42" example_env]
    by (clarsimp simp add: null_scalar_def null_array_def null_record_def int64_element_def
          example_state_fields blpapi_Element_numValues_def blpapi_Element_numElements_def)
qed

section \<open>The error paths of the array and record converters\<close>

text \<open>
  C1, at an input where the claim fails. When the accessor for the second value of an array
  of complex values (or for the second sub-element of a record) reports failure, the
  \<open>ERROR\<close> label releases the container, which releases the first converted value, and
  then releases the local variable, which still points at that first value: the value at
  address 270 is released a second time, after it has been deallocated. The call does fail
  and answers \<open>NULL\<close>.
\<close>

theorem ERROR_releases_stale_pointer:
  "violations example_state = []
   \<and> fst (arrayElementToPy example_env failing_array example_state) = NULL
   \<and> violations (snd (arrayElementToPy example_env failing_array example_state)) = [270]
   \<and> lookup (snd (arrayElementToPy example_env failing_array example_state)) 270 = None
   \<and> fst (complexElementToPy example_env failing_record example_state) = NULL
   \<and> violations (snd (complexElementToPy example_env failing_record example_state)) = [270]
   \<and> lookup (snd (complexElementToPy example_env failing_record example_state)) 270 = None"
  by code_simp

end
